theory Spec2Isabelle
  imports Complex_Main "HOL-Library.Sublist"
begin

section \<open>Uptime monitoring backend: data model\<close>

text \<open>
  The embedding follows \<^verbatim>\<open>server.py\<close>. Python floats are idealised as reals, a
  \<^verbatim>\<open>datetime\<close> is the number of microseconds since the epoch, a \<^verbatim>\<open>str\<close> is the list of
  its UTF-8 bytes, and every MongoDB collection is the list of its documents in
  insertion order.
\<close>

datatype MonitorStatus = UP | DOWN | UNKNOWN | WARNING

datatype MonitorType = HTTP | HTTPS | SSL | DNS | PORT | PING | KEYWORD | API

datatype PortProtocol = TCP | UDP

datatype DNSRecordType = A | AAAA | CNAME | MX | NS | TXT

type_synonym datetime = int

record Monitor =
  m_id :: string
  name :: string
  url :: "string option"
  check_interval :: int
  monitor_type :: MonitorType
  timeout :: int
  status :: MonitorStatus
  last_checked :: "datetime option"
  response_time :: "real option"
  created_at :: datetime
  uptime_percentage :: real
  ssl_domain :: "string option"
  ssl_expiry_threshold :: "int option"
  ssl_expires_at :: "datetime option"
  dns_hostname :: "string option"
  dns_server :: "string option"
  dns_record_type :: "DNSRecordType option"
  expected_dns_result :: "string option"
  port_host :: "string option"
  port_number :: "int option"
  port_protocol :: "PortProtocol option"
  ping_host :: "string option"
  ping_count :: "int option"
  ping_packet_size :: "int option"
  ping_packet_loss :: "real option"
  keyword_url :: "string option"
  keyword_text :: "string option"
  keyword_match_type :: "string option"
  keyword_found :: "bool option"
  api_url :: "string option"
  api_method :: "string option"
  api_headers :: "(string \<times> string) list option"
  api_body :: "string option"
  expected_status_code :: "int option"
  expected_response_time :: "real option"
  json_path :: "string option"
  expected_json_value :: "string option"
  actual_status_code :: "int option"
  json_validation_result :: "bool option"

record UptimeLog =
  log_id :: string
  log_monitor_id :: string
  timestamp :: datetime
  log_status :: MonitorStatus
  log_response_time :: "real option"
  error_message :: "string option"
  log_ssl_expires_at :: "datetime option"
  ssl_days_until_expiry :: "int option"
  dns_resolution_time :: "real option"
  dns_result :: "string option"
  port_open :: "bool option"
  log_ping_packet_loss :: "real option"
  ping_min_time :: "real option"
  ping_max_time :: "real option"
  ping_avg_time :: "real option"
  log_keyword_found :: "bool option"
  keyword_match_count :: "int option"
  api_status_code :: "int option"
  api_response_size :: "nat option"
  json_validation_passed :: "bool option"

record AlertSettings =
  alert_id :: string
  monitor_id :: string
  email_enabled :: bool
  email_address :: string
  alert_on_down :: bool
  alert_on_up :: bool
  alert_created_at :: datetime

record AlertSettingsCreate =
  asc_monitor_id :: string
  asc_email_address :: string
  asc_alert_on_down :: bool
  asc_alert_on_up :: bool

record DashboardStats =
  total_monitors :: nat
  monitors_up :: nat
  monitors_down :: nat
  overall_uptime :: real

text \<open>The three collections of the database \<^verbatim>\<open>db\<close>.\<close>

record Store =
  monitors :: "Monitor list"
  uptime_logs :: "UptimeLog list"
  alert_settings :: "AlertSettings list"

subsection \<open>Collection operations\<close>

text \<open>\<^verbatim>\<open>find_one\<close>: the first matching document.\<close>

definition find_one :: "('a \<Rightarrow> bool) \<Rightarrow> 'a list \<Rightarrow> 'a option" where
  "find_one p xs = List.find p xs"

text \<open>\<^verbatim>\<open>find(q).to_list(n)\<close>: at most \<open>n\<close> matching documents.\<close>

definition find_to_list :: "('a \<Rightarrow> bool) \<Rightarrow> nat \<Rightarrow> 'a list \<Rightarrow> 'a list" where
  "find_to_list p n xs = take n (filter p xs)"

text \<open>\<^verbatim>\<open>delete_one\<close>: removes the first matching document and reports \<^verbatim>\<open>deleted_count\<close>.\<close>

fun delete_one :: "('a \<Rightarrow> bool) \<Rightarrow> 'a list \<Rightarrow> 'a list \<times> nat" where
  "delete_one p [] = ([], 0)"
| "delete_one p (x # xs) =
     (if p x then (xs, 1) else (x # fst (delete_one p xs), snd (delete_one p xs)))"

definition delete_many :: "('a \<Rightarrow> bool) \<Rightarrow> 'a list \<Rightarrow> 'a list" where
  "delete_many p xs = filter (\<lambda>x. \<not> p x) xs"

text \<open>\<^verbatim>\<open>update_one\<close> with \<^verbatim>\<open>$set\<close>: rewrites the first matching document.\<close>

fun update_one :: "('a \<Rightarrow> bool) \<Rightarrow> ('a \<Rightarrow> 'a) \<Rightarrow> 'a list \<Rightarrow> 'a list" where
  "update_one p f [] = []"
| "update_one p f (x # xs) = (if p x then f x # xs else x # update_one p f xs)"

definition insert_one :: "'a \<Rightarrow> 'a list \<Rightarrow> 'a list" where
  "insert_one x xs = xs @ [x]"

subsection \<open>Python text helpers\<close>

definition digit_char :: "nat \<Rightarrow> char" where
  "digit_char n = ''0123456789'' ! n"

fun str_nat :: "nat \<Rightarrow> string" where
  "str_nat n =
     (if n < 10 then [digit_char n] else str_nat (n div 10) @ [digit_char (n mod 10)])"

declare str_nat.simps [simp del]

text \<open>\<^verbatim>\<open>str(i)\<close> of an integer.\<close>

definition str_int :: "int \<Rightarrow> string" where
  "str_int i = (if i < 0 then CHR ''-'' # str_nat (nat (- i)) else str_nat (nat i))"

definition ascii_lower :: "char \<Rightarrow> char" where
  "ascii_lower c =
     (let n = (of_char c :: nat) in if 65 \<le> n \<and> n \<le> 90 then char_of (n + 32) else c)"

definition lower :: "string \<Rightarrow> string" where
  "lower s = map ascii_lower s"

text \<open>\<^verbatim>\<open>sep.join(xs)\<close>.\<close>

fun join :: "string \<Rightarrow> string list \<Rightarrow> string" where
  "join sep [] = []"
| "join sep [x] = x"
| "join sep (x # y # ys) = x @ sep @ join sep (y # ys)"

text \<open>\<^verbatim>\<open>sub in s\<close> on strings.\<close>

fun contains :: "string \<Rightarrow> string \<Rightarrow> bool" where
  "contains [] sub = (sub = [])"
| "contains (c # cs) sub = (prefix sub (c # cs) \<or> contains cs sub)"

text \<open>
  \<^verbatim>\<open>s.count(sub)\<close>: non-overlapping occurrences, scanning from the left; the first
  argument counts the characters still covered by the last match.
\<close>

fun count_from :: "nat \<Rightarrow> string \<Rightarrow> string \<Rightarrow> nat" where
  "count_from k sub [] = 0"
| "count_from (Suc k) sub (c # cs) = count_from k sub cs"
| "count_from 0 sub (c # cs) =
     (if prefix sub (c # cs) then Suc (count_from (length sub - 1) sub cs)
      else count_from 0 sub cs)"

definition count_str :: "string \<Rightarrow> string \<Rightarrow> nat" where
  "count_str s sub = (if sub = [] then length s + 1 else count_from 0 sub s)"

definition is_space :: "char \<Rightarrow> bool" where
  "is_space c = (let n = (of_char c :: nat) in n = 32 \<or> (9 \<le> n \<and> n \<le> 13) \<or> (28 \<le> n \<and> n \<le> 31))"

text \<open>\<^verbatim>\<open>s.strip()\<close> for ASCII white space.\<close>

definition strip :: "string \<Rightarrow> string" where
  "strip s = rev (dropWhile is_space (rev (dropWhile is_space s)))"

text \<open>\<^verbatim>\<open>s.split('.')\<close>: always at least one segment.\<close>

fun split_dot :: "string \<Rightarrow> string list" where
  "split_dot [] = [[]]"
| "split_dot (c # cs) =
     (if c = CHR ''.'' then [] # split_dot cs
      else (case split_dot cs of [] \<Rightarrow> [[c]] | w # ws \<Rightarrow> (c # w) # ws))"

subsection \<open>Exceptions and the outside world\<close>

text \<open>
  An exception is its class, as far as some \<^verbatim>\<open>except\<close> clause of the source tells
  classes apart, and the text \<^verbatim>\<open>str(e)\<close>. A call that reaches the network either
  returns or raises.
\<close>

datatype exn_class =
  AsyncioTimeoutError | SocketTimeout | DnsNXDOMAIN | DnsTimeout | OtherException

datatype exn = Exn exn_class string

datatype 'a io = Returned 'a | Raised exn

fun str_exn :: "exn \<Rightarrow> string" where
  "str_exn (Exn c msg) = msg"

fun exn_class_of :: "exn \<Rightarrow> exn_class" where
  "exn_class_of (Exn c msg) = c"

text \<open>A value produced by \<^verbatim>\<open>json.loads\<close>.\<close>

datatype json =
  JNull | JBool bool | JInt int | JFloat real | JStr string
  | JArr "json list" | JObj "(string \<times> json) list"

text \<open>
  What the Python runtime and its libraries compute and the model does not reproduce:
  the JSON parser (\<open>Inl\<close> carries the text of the \<^verbatim>\<open>JSONDecodeError\<close>), \<^verbatim>\<open>repr\<close> of a
  value, the text of the \<^verbatim>\<open>TypeError\<close> raised by subscripting a value that is not a
  dict, the formatting of floats, and \<^verbatim>\<open>len(re.findall(pattern, content))\<close> (\<open>Inl\<close>
  carries the text of the error raised for a bad pattern), and the text of the
  \<^verbatim>\<open>TypeError\<close> raised when the named operation receives \<^verbatim>\<open>None\<close> for a string.
\<close>

record py_runtime =
  json_loads :: "string \<Rightarrow> string + json"
  repr :: "json \<Rightarrow> string"
  type_error_text :: "json \<Rightarrow> string"
  float_2f :: "real \<Rightarrow> string"
  float_str :: "real \<Rightarrow> string"
  regex_findall :: "string \<Rightarrow> string \<Rightarrow> string + nat"
  none_error_text :: "string \<Rightarrow> string"

text \<open>\<^verbatim>\<open>str(value)\<close> of a parsed JSON value.\<close>

fun py_str :: "py_runtime \<Rightarrow> json \<Rightarrow> string" where
  "py_str rt JNull = ''None''"
| "py_str rt (JBool b) = (if b then ''True'' else ''False'')"
| "py_str rt (JInt i) = str_int i"
| "py_str rt (JFloat r) = float_str rt r"
| "py_str rt (JStr s) = s"
| "py_str rt (JArr xs) = repr rt (JArr xs)"
| "py_str rt (JObj kvs) = repr rt (JObj kvs)"

text \<open>An HTTP response: its status and what \<^verbatim>\<open>await response.text()\<close> does.\<close>

record http_response =
  http_status :: int
  http_text :: "string io"

text \<open>
  A finished \<^verbatim>\<open>ping\<close> process: its return code, the number matched on the first
  line holding \<^verbatim>\<open>packet loss\<close> and the three numbers matched on the first line
  holding \<^verbatim>\<open>min/avg/max\<close> (each \<open>None\<close> when there is no such line or no match),
  and the decoded standard error.
\<close>

record ping_process =
  returncode :: int
  packet_loss_match :: "real option"
  rtt_match :: "(real \<times> real \<times> real) option"
  stderr_text :: string

text \<open>
  What the world answers to one check of one monitor, and the readings of the clock
  and the fresh identifier the check takes.
\<close>

record probe_env =
  elapsed :: real
  http_io :: "http_response io"
  tls_io :: "datetime io"
  dns_io :: "string list io"
  conn_io :: "unit io"
  ping_io :: "ping_process io"
  now_probe :: datetime
  now_checked :: datetime
  now_logged :: datetime
  now_aggregate :: datetime
  new_log_id :: string

section \<open>Probe primitives\<close>

text \<open>\<^verbatim>\<open>check_url\<close>: one GET; the second argument is the measured wall time.\<close>

fun check_url :: "http_response io \<Rightarrow> real \<Rightarrow> MonitorStatus \<times> real option \<times> string option" where
  "check_url (Returned r) t =
     (if http_status r = 200 then (UP, Some t, None)
      else (DOWN, Some t, Some (''HTTP '' @ str_int (http_status r))))"
| "check_url (Raised (Exn AsyncioTimeoutError msg)) t = (DOWN, Some t, Some ''Timeout'')"
| "check_url (Raised (Exn c msg)) t = (DOWN, Some t, Some msg)"

text \<open>
  \<^verbatim>\<open>check_ssl_certificate\<close>. The first argument is the outcome of everything up to and
  including the parsing of \<^verbatim>\<open>notAfter\<close>; \<open>now\<close> is \<^verbatim>\<open>datetime.utcnow()\<close>.
  \<^verbatim>\<open>timedelta.days\<close> is the floor of the difference in days.
\<close>

definition timedelta_days :: "int \<Rightarrow> int" where
  "timedelta_days micros = micros div 86400000000"

fun check_ssl_certificate ::
  "datetime io \<Rightarrow> datetime \<Rightarrow> real \<Rightarrow> int \<Rightarrow>
   MonitorStatus \<times> real option \<times> string option \<times> datetime option \<times> int option" where
  "check_ssl_certificate (Returned expiry_date) now t expiry_threshold =
     (let days_until_expiry = timedelta_days (expiry_date - now) in
      if days_until_expiry < 0 then
        (DOWN, Some t,
         Some (''Certificate expired '' @ str_int (abs days_until_expiry) @ '' days ago''),
         Some expiry_date, Some days_until_expiry)
      else if days_until_expiry \<le> expiry_threshold then
        (WARNING, Some t,
         Some (''Certificate expires in '' @ str_int days_until_expiry @ '' days''),
         Some expiry_date, Some days_until_expiry)
      else (UP, Some t, None, Some expiry_date, Some days_until_expiry))"
| "check_ssl_certificate (Raised (Exn SocketTimeout msg)) now t expiry_threshold =
     (DOWN, Some t, Some ''Connection timeout'', None, None)"
| "check_ssl_certificate (Raised (Exn c msg)) now t expiry_threshold =
     (DOWN, Some t, Some msg, None, None)"

text \<open>Python truthiness of an optional string and of an optional number.\<close>

fun truthy_str :: "string option \<Rightarrow> bool" where
  "truthy_str None = False"
| "truthy_str (Some s) = (s \<noteq> [])"

fun truthy_real :: "real option \<Rightarrow> bool" where
  "truthy_real None = False"
| "truthy_real (Some x) = (x \<noteq> 0)"

definition squote :: string where
  "squote = [CHR 0x27]"

text \<open>\<^verbatim>\<open>check_dns_resolution\<close>: the answers arrive already turned into strings.\<close>

fun check_dns_resolution ::
  "string list io \<Rightarrow> string option \<Rightarrow> real \<Rightarrow>
   MonitorStatus \<times> real option \<times> string option \<times> string option" where
  "check_dns_resolution (Returned answers) expected_result t =
     (let resolved_result = join '', '' answers in
      if truthy_str expected_result then
        (if contains resolved_result (the expected_result)
         then (UP, Some t, None, Some resolved_result)
         else (DOWN, Some t,
               Some (''Expected '' @ squote @ the expected_result @ squote @ '' but got ''
                     @ squote @ resolved_result @ squote),
               Some resolved_result))
      else (UP, Some t, None, Some resolved_result))"
| "check_dns_resolution (Raised (Exn DnsNXDOMAIN msg)) expected_result t =
     (DOWN, Some t, Some ''Domain does not exist'', None)"
| "check_dns_resolution (Raised (Exn DnsTimeout msg)) expected_result t =
     (DOWN, Some t, Some ''DNS resolution timeout'', None)"
| "check_dns_resolution (Raised (Exn c msg)) expected_result t =
     (DOWN, Some t, Some msg, None)"

text \<open>\<^verbatim>\<open>check_port_connectivity\<close>: both protocols open a connection and report alike.\<close>

fun port_attempt :: "unit io \<Rightarrow> real \<Rightarrow> MonitorStatus \<times> real option \<times> string option \<times> bool" where
  "port_attempt (Returned u) t = (UP, Some t, None, True)"
| "port_attempt (Raised e) t = (DOWN, Some t, Some (str_exn e), False)"

definition check_port_connectivity ::
  "string \<Rightarrow> unit io \<Rightarrow> real \<Rightarrow> MonitorStatus \<times> real option \<times> string option \<times> bool" where
  "check_port_connectivity protocol conn t =
     (if lower protocol = ''tcp'' then port_attempt conn t
      else if lower protocol = ''udp'' then port_attempt conn t
      else (DOWN, Some t, Some (''Unsupported protocol: '' @ protocol), False))"

text \<open>\<^verbatim>\<open>x/1000 if x else None\<close>.\<close>

fun millis_to_seconds :: "real option \<Rightarrow> real option" where
  "millis_to_seconds None = None"
| "millis_to_seconds (Some x) = (if x \<noteq> 0 then Some (x / 1000) else None)"

text \<open>\<^verbatim>\<open>check_ping\<close>.\<close>

fun check_ping ::
  "ping_process io \<Rightarrow>
   MonitorStatus \<times> real option \<times> string option \<times> real option \<times> real option
   \<times> real option \<times> real option" where
  "check_ping (Returned p) =
     (if returncode p = 0 then
        (let packet_loss = (case packet_loss_match p of None \<Rightarrow> 0 | Some x \<Rightarrow> x);
             min_time = map_option fst (rtt_match p);
             avg_time = map_option (\<lambda>r. fst (snd r)) (rtt_match p);
             max_time = map_option (\<lambda>r. snd (snd r)) (rtt_match p)
         in if packet_loss < 100 then
              ((if packet_loss = 0 then UP else WARNING), millis_to_seconds avg_time, None,
               Some packet_loss, millis_to_seconds min_time, millis_to_seconds max_time,
               millis_to_seconds avg_time)
            else (DOWN, None, Some ''100% packet loss'', Some packet_loss, None, None, None))
      else (DOWN, None, Some (''Ping failed: '' @ stderr_text p), None, None, None, None))"
| "check_ping (Raised e) = (DOWN, None, Some (str_exn e), None, None, None, None)"

text \<open>
  \<^verbatim>\<open>check_keyword\<close>. The two \<^verbatim>\<open>except\<close> clauses also catch what the body of the
  \<^verbatim>\<open>try\<close> raises after the response has arrived.
\<close>

fun keyword_failed ::
  "exn \<Rightarrow> real \<Rightarrow> MonitorStatus \<times> real option \<times> string option \<times> bool \<times> nat" where
  "keyword_failed (Exn AsyncioTimeoutError msg) t = (DOWN, Some t, Some ''Timeout'', False, 0)"
| "keyword_failed (Exn c msg) t = (DOWN, Some t, Some msg, False, 0)"

definition keyword_verdict ::
  "string \<Rightarrow> bool \<Rightarrow> nat \<Rightarrow> real \<Rightarrow> MonitorStatus \<times> real option \<times> string option \<times> bool \<times> nat" where
  "keyword_verdict keyword found match_count t =
     (if found then (UP, Some t, None, found, match_count)
      else (DOWN, Some t, Some (''Keyword '' @ squote @ keyword @ squote @ '' not found''),
            found, match_count))"

definition keyword_match ::
  "py_runtime \<Rightarrow> string \<Rightarrow> string option \<Rightarrow> string \<Rightarrow> real \<Rightarrow>
   MonitorStatus \<times> real option \<times> string option \<times> bool \<times> nat" where
  "keyword_match rt content keyword match_type t =
     (if match_type = ''contains'' then
        (case keyword of
           None \<Rightarrow> keyword_failed (Exn OtherException (none_error_text rt ''in'')) t
         | Some k \<Rightarrow> keyword_verdict k (contains content k) (count_str content k) t)
      else if match_type = ''exact'' then
        (case keyword of
           None \<Rightarrow> keyword_verdict ''None'' False 0 t
         | Some k \<Rightarrow> keyword_verdict k (k = strip content) (if k = strip content then 1 else 0) t)
      else if match_type = ''regex'' then
        (case keyword of
           None \<Rightarrow> keyword_failed (Exn OtherException (none_error_text rt ''findall'')) t
         | Some k \<Rightarrow>
             (case regex_findall rt k content of
                Inl msg \<Rightarrow> keyword_failed (Exn OtherException msg) t
              | Inr n \<Rightarrow> keyword_verdict k (n > 0) n t))
      else keyword_verdict (case keyword of None \<Rightarrow> ''None'' | Some k \<Rightarrow> k) False 0 t)"

fun check_keyword ::
  "py_runtime \<Rightarrow> http_response io \<Rightarrow> string option \<Rightarrow> string \<Rightarrow> real \<Rightarrow>
   MonitorStatus \<times> real option \<times> string option \<times> bool \<times> nat" where
  "check_keyword rt (Returned r) keyword match_type t =
     (if http_status r = 200 then
        (case http_text r of
           Returned content \<Rightarrow> keyword_match rt content keyword match_type t
         | Raised e \<Rightarrow> keyword_failed e t)
      else (DOWN, Some t, Some (''HTTP '' @ str_int (http_status r)), False, 0))"
| "check_keyword rt (Raised e) keyword match_type t = keyword_failed e t"

text \<open>
  \<^verbatim>\<open>check_api_endpoint\<close>. The path is followed by \<^verbatim>\<open>value = value[key]\<close>: a dict without
  the key raises \<^verbatim>\<open>KeyError\<close>, whose text is the \<^verbatim>\<open>repr\<close> of the key, and every other
  value raises \<^verbatim>\<open>TypeError\<close>; \<open>Inl\<close> carries the text of the exception.
\<close>

fun navigate :: "py_runtime \<Rightarrow> json \<Rightarrow> string list \<Rightarrow> string + json" where
  "navigate rt v [] = Inr v"
| "navigate rt (JObj kvs) (key # keys) =
     (case map_of kvs key of
        None \<Rightarrow> Inl (repr rt (JStr key))
      | Some v \<Rightarrow> navigate rt v keys)"
| "navigate rt v (key # keys) = Inl (type_error_text rt v)"

type_synonym api_result =
  "MonitorStatus \<times> real option \<times> string option \<times> int \<times> bool \<times> nat option"

fun api_failed :: "exn \<Rightarrow> real \<Rightarrow> api_result" where
  "api_failed (Exn AsyncioTimeoutError msg) t = (DOWN, Some t, Some ''Timeout'', 0, False, None)"
| "api_failed (Exn c msg) t = (DOWN, Some t, Some msg, 0, False, None)"

definition json_validation ::
  "py_runtime \<Rightarrow> string \<Rightarrow> string \<Rightarrow> string \<Rightarrow> int \<Rightarrow> real \<Rightarrow> api_result" where
  "json_validation rt response_text path expected code t =
     (case json_loads rt response_text of
        Inl msg \<Rightarrow>
          (DOWN, Some t, Some (''JSON validation error: '' @ msg), code, False,
           Some (length response_text))
      | Inr response_json \<Rightarrow>
          (case navigate rt response_json (split_dot path) of
             Inl msg \<Rightarrow>
               (DOWN, Some t, Some (''JSON validation error: '' @ msg), code, False,
                Some (length response_text))
           | Inr v \<Rightarrow>
               if py_str rt v \<noteq> expected then
                 (DOWN, Some t,
                  Some (''JSON validation failed: expected '' @ squote @ expected @ squote
                        @ '', got '' @ squote @ py_str rt v @ squote),
                  code, False, Some (length response_text))
               else (UP, Some t, None, code, True, Some (length response_text))))"

definition api_evaluate ::
  "py_runtime \<Rightarrow> int \<Rightarrow> string \<Rightarrow> int \<Rightarrow> real option \<Rightarrow> string option \<Rightarrow> string option
   \<Rightarrow> real \<Rightarrow> api_result" where
  "api_evaluate rt code response_text exp_status_code exp_response_time
     path exp_json_value t =
     (if code \<noteq> exp_status_code then
        (DOWN, Some t,
         Some (''Expected status '' @ str_int exp_status_code @ '', got '' @ str_int code),
         code, False, Some (length response_text))
      else if truthy_real exp_response_time \<and> t > the exp_response_time then
        (WARNING, Some t,
         Some (''Response time '' @ float_2f rt t @ ''s exceeds limit ''
               @ float_str rt (the exp_response_time) @ ''s''),
         code, False, Some (length response_text))
      else if truthy_str path \<and> truthy_str exp_json_value then
        json_validation rt response_text (the path) (the exp_json_value) code t
      else (UP, Some t, None, code, True, Some (length response_text)))"

fun check_api_endpoint ::
  "py_runtime \<Rightarrow> http_response io \<Rightarrow> int \<Rightarrow> real option \<Rightarrow> string option \<Rightarrow> string option
   \<Rightarrow> real \<Rightarrow> api_result" where
  "check_api_endpoint rt (Returned r) exp_status_code exp_response_time
     path exp_json_value t =
     (case http_text r of
        Returned response_text \<Rightarrow>
          api_evaluate rt (http_status r) response_text exp_status_code
            exp_response_time path exp_json_value t
      | Raised e \<Rightarrow> api_failed e t)"
| "check_api_endpoint rt (Raised e) exp_status_code exp_response_time
     path exp_json_value t = api_failed e t"

section \<open>Check pipeline\<close>

text \<open>
  What one probe hands to the pipeline: the three common values, the kind-specific
  entries of \<^verbatim>\<open>update_data\<close> as an update of the monitor document, and \<^verbatim>\<open>log_data\<close> as
  an update of the log document.
\<close>

record probe_outcome =
  po_status :: MonitorStatus
  po_response_time :: "real option"
  po_error_msg :: "string option"
  po_update :: "Monitor \<Rightarrow> Monitor"
  po_log :: "UptimeLog \<Rightarrow> UptimeLog"

text \<open>\<^verbatim>\<open>x or d\<close> on an optional integer and on an optional string.\<close>

fun or_int :: "int option \<Rightarrow> int \<Rightarrow> int" where
  "or_int None d = d"
| "or_int (Some x) d = (if x = 0 then d else x)"

fun or_str :: "string option \<Rightarrow> string \<Rightarrow> string" where
  "or_str None d = d"
| "or_str (Some x) d = (if x = [] then d else x)"

fun PortProtocol_value :: "PortProtocol \<Rightarrow> string" where
  "PortProtocol_value TCP = ''tcp''"
| "PortProtocol_value UDP = ''udp''"

definition probe_http :: "probe_env \<Rightarrow> probe_outcome" where
  "probe_http env =
     (case check_url (http_io env) (elapsed env) of
        (s, t, e) \<Rightarrow>
          \<lparr>po_status = s, po_response_time = t, po_error_msg = e,
           po_update = (\<lambda>d. d), po_log = (\<lambda>l. l)\<rparr>)"

definition probe_ssl :: "Monitor \<Rightarrow> probe_env \<Rightarrow> probe_outcome" where
  "probe_ssl m env =
     (case check_ssl_certificate (tls_io env) (now_probe env) (elapsed env)
             (or_int (ssl_expiry_threshold m) 30) of
        (s, t, e, expiry_date, days_until_expiry) \<Rightarrow>
          \<lparr>po_status = s, po_response_time = t, po_error_msg = e,
           po_update = (\<lambda>d. if expiry_date \<noteq> None then d\<lparr>ssl_expires_at := expiry_date\<rparr> else d),
           po_log = (\<lambda>l. if expiry_date \<noteq> None
                          then l\<lparr>log_ssl_expires_at := expiry_date,
                                 ssl_days_until_expiry := days_until_expiry\<rparr>
                          else l)\<rparr>)"

definition probe_dns :: "Monitor \<Rightarrow> probe_env \<Rightarrow> probe_outcome" where
  "probe_dns m env =
     (case check_dns_resolution (dns_io env) (expected_dns_result m) (elapsed env) of
        (s, t, e, resolved) \<Rightarrow>
          \<lparr>po_status = s, po_response_time = t, po_error_msg = e,
           po_update = (\<lambda>d. d),
           po_log = (\<lambda>l. l\<lparr>dns_resolution_time := t, dns_result := resolved\<rparr>)\<rparr>)"

definition probe_port :: "Monitor \<Rightarrow> probe_env \<Rightarrow> probe_outcome" where
  "probe_port m env =
     (case check_port_connectivity
             (case port_protocol m of None \<Rightarrow> ''tcp'' | Some pr \<Rightarrow> PortProtocol_value pr)
             (conn_io env) (elapsed env) of
        (s, t, e, is_open) \<Rightarrow>
          \<lparr>po_status = s, po_response_time = t, po_error_msg = e,
           po_update = (\<lambda>d. d),
           po_log = (\<lambda>l. l\<lparr>port_open := Some is_open\<rparr>)\<rparr>)"

definition probe_ping :: "probe_env \<Rightarrow> probe_outcome" where
  "probe_ping env =
     (case check_ping (ping_io env) of
        (s, avg_time, e, packet_loss, min_time, max_time, avg_time_detailed) \<Rightarrow>
          \<lparr>po_status = s, po_response_time = avg_time, po_error_msg = e,
           po_update = (\<lambda>d. if packet_loss \<noteq> None then d\<lparr>ping_packet_loss := packet_loss\<rparr> else d),
           po_log = (\<lambda>l. if packet_loss \<noteq> None
                          then l\<lparr>log_ping_packet_loss := packet_loss, ping_min_time := min_time,
                                 ping_max_time := max_time, ping_avg_time := avg_time_detailed\<rparr>
                          else l)\<rparr>)"

definition probe_keyword :: "py_runtime \<Rightarrow> Monitor \<Rightarrow> probe_env \<Rightarrow> probe_outcome" where
  "probe_keyword rt m env =
     (case check_keyword rt (http_io env) (keyword_text m)
             (or_str (keyword_match_type m) ''contains'') (elapsed env) of
        (s, t, e, found, match_count) \<Rightarrow>
          \<lparr>po_status = s, po_response_time = t, po_error_msg = e,
           po_update = (\<lambda>d. d\<lparr>keyword_found := Some found\<rparr>),
           po_log = (\<lambda>l. l\<lparr>log_keyword_found := Some found,
                             keyword_match_count := Some (int match_count)\<rparr>)\<rparr>)"

definition probe_api :: "py_runtime \<Rightarrow> Monitor \<Rightarrow> probe_env \<Rightarrow> probe_outcome" where
  "probe_api rt m env =
     (case check_api_endpoint rt (http_io env) (or_int (expected_status_code m) 200)
             (expected_response_time m) (json_path m) (expected_json_value m) (elapsed env) of
        (s, t, e, status_code, json_valid, response_size) \<Rightarrow>
          \<lparr>po_status = s, po_response_time = t, po_error_msg = e,
           po_update = (\<lambda>d. d\<lparr>actual_status_code := Some status_code,
                                json_validation_result := Some json_valid\<rparr>),
           po_log = (\<lambda>l. l\<lparr>api_status_code := Some status_code,
                             api_response_size := response_size,
                             json_validation_passed := Some json_valid\<rparr>)\<rparr>)"

text \<open>The dispatch on \<^verbatim>\<open>monitor_type\<close>, the same in the background cycle and in the manual check.\<close>

fun run_probe_kind :: "MonitorType \<Rightarrow> py_runtime \<Rightarrow> Monitor \<Rightarrow> probe_env \<Rightarrow> probe_outcome" where
  "run_probe_kind HTTP rt m env = probe_http env"
| "run_probe_kind HTTPS rt m env = probe_http env"
| "run_probe_kind SSL rt m env = probe_ssl m env"
| "run_probe_kind DNS rt m env = probe_dns m env"
| "run_probe_kind PORT rt m env = probe_port m env"
| "run_probe_kind PING rt m env = probe_ping env"
| "run_probe_kind KEYWORD rt m env = probe_keyword rt m env"
| "run_probe_kind API rt m env = probe_api rt m env"

definition run_probe :: "py_runtime \<Rightarrow> Monitor \<Rightarrow> probe_env \<Rightarrow> probe_outcome" where
  "run_probe rt m env = run_probe_kind (monitor_type m) rt m env"

text \<open>The \<^verbatim>\<open>$set\<close> of \<^verbatim>\<open>update_data\<close> on one monitor document.\<close>

definition apply_update_data :: "probe_outcome \<Rightarrow> probe_env \<Rightarrow> Monitor \<Rightarrow> Monitor" where
  "apply_update_data po env d =
     (po_update po (d\<lparr>last_checked := Some (now_checked env)\<rparr>))
       \<lparr>status := po_status po, response_time := po_response_time po\<rparr>"

text \<open>\<^verbatim>\<open>UptimeLog(**log_dict)\<close>.\<close>

definition make_uptime_log :: "string \<Rightarrow> probe_outcome \<Rightarrow> probe_env \<Rightarrow> UptimeLog" where
  "make_uptime_log mid po env =
     po_log po
       \<lparr>log_id = new_log_id env, log_monitor_id = mid, timestamp = now_logged env,
        log_status = po_status po, log_response_time = po_response_time po,
        error_message = po_error_msg po, log_ssl_expires_at = None,
        ssl_days_until_expiry = None, dns_resolution_time = None, dns_result = None,
        port_open = None, log_ping_packet_loss = None, ping_min_time = None,
        ping_max_time = None, ping_avg_time = None, log_keyword_found = None,
        keyword_match_count = None, api_status_code = None, api_response_size = None,
        json_validation_passed = None\<rparr>"

text \<open>The two store writes that follow a probe: the monitor update and the log insert.\<close>

definition record_check :: "string \<Rightarrow> probe_outcome \<Rightarrow> probe_env \<Rightarrow> Store \<Rightarrow> Store" where
  "record_check mid po env st =
     st\<lparr>monitors := update_one (\<lambda>d. m_id d = mid) (apply_update_data po env) (monitors st),
        uptime_logs := insert_one (make_uptime_log mid po env) (uptime_logs st)\<rparr>"

section \<open>Uptime aggregator\<close>

definition twenty_four_hours :: int where
  "twenty_four_hours = 24 * 3600 * 1000000"

definition recent_logs :: "Store \<Rightarrow> string \<Rightarrow> datetime \<Rightarrow> UptimeLog list" where
  "recent_logs st mid now =
     filter (\<lambda>l. log_monitor_id l = mid \<and> timestamp l \<ge> now - twenty_four_hours)
       (uptime_logs st)"

definition update_uptime_percentage :: "Store \<Rightarrow> string \<Rightarrow> datetime \<Rightarrow> Store" where
  "update_uptime_percentage st mid now =
     (let logs = find_to_list
                   (\<lambda>l. log_monitor_id l = mid \<and> timestamp l \<ge> now - twenty_four_hours)
                   1000 (uptime_logs st)
      in if logs = [] then st
         else
           (let up_count = length (filter (\<lambda>l. log_status l = UP) logs);
                total_count = length logs;
                pct = (if total_count > 0 then real up_count / real total_count * 100 else 0)
            in st\<lparr>monitors :=
                    update_one (\<lambda>d. m_id d = mid) (\<lambda>d. d\<lparr>uptime_percentage := pct\<rparr>)
                      (monitors st)\<rparr>))"

section \<open>Alert dispatch\<close>

text \<open>
  An email handed to the SMTP server. \<^verbatim>\<open>send_alert_email\<close> has two templates: the
  one with the subject \<^verbatim>\<open>ALERT: ... is DOWN\<close> and the one with the subject
  \<^verbatim>\<open>RECOVERY: ... is back UP\<close>.
\<close>

datatype email_kind = DOWN_ALERT | RECOVERY

record email =
  email_to :: string
  email_monitor_name :: string
  email_monitor_url :: string
  email_template :: email_kind

definition send_alert_email :: "string \<Rightarrow> string \<Rightarrow> MonitorStatus \<Rightarrow> string \<Rightarrow> email" where
  "send_alert_email monitor_name monitor_url st_new address =
     \<lparr>email_to = address, email_monitor_name = monitor_name, email_monitor_url = monitor_url,
      email_template = (if st_new = DOWN then DOWN_ALERT else RECOVERY)\<rparr>"

text \<open>The chain of \<^verbatim>\<open>or\<close> that picks the address shown in the email.\<close>

fun first_truthy :: "string option list \<Rightarrow> string \<Rightarrow> string" where
  "first_truthy [] d = d"
| "first_truthy (x # xs) d = (if truthy_str x then the x else first_truthy xs d)"

definition monitor_url :: "Monitor \<Rightarrow> string" where
  "monitor_url m =
     first_truthy [url m, ssl_domain m, dns_hostname m, port_host m, ping_host m,
                   keyword_url m, api_url m] ''N/A''"

definition should_alert :: "MonitorStatus \<Rightarrow> AlertSettings \<Rightarrow> bool" where
  "should_alert st_new alert =
     ((st_new = DOWN \<and> alert_on_down alert) \<or> (st_new = UP \<and> alert_on_up alert)
      \<or> (st_new = WARNING \<and> alert_on_down alert))"

definition alert_emails :: "Store \<Rightarrow> Monitor \<Rightarrow> MonitorStatus \<Rightarrow> MonitorStatus \<Rightarrow> email list" where
  "alert_emails st m previous_status st_new =
     (if previous_status \<noteq> st_new \<and> previous_status \<noteq> UNKNOWN then
        map (\<lambda>alert. send_alert_email (name m) (monitor_url m) st_new (email_address alert))
          (filter (\<lambda>alert. should_alert st_new alert \<and> email_enabled alert)
             (find_to_list (\<lambda>a. monitor_id a = m_id m) 100 (alert_settings st)))
      else [])"

section \<open>Background check cycle\<close>

definition is_due :: "Monitor \<Rightarrow> datetime \<Rightarrow> bool" where
  "is_due m now =
     (case last_checked m of
        None \<Rightarrow> True
      | Some t \<Rightarrow> now - t \<ge> check_interval m * 1000000)"

text \<open>
  The body of the \<^verbatim>\<open>for\<close> loop of \<^verbatim>\<open>monitor_check_cycle\<close> for one monitor of the
  snapshot; the second component collects the emails sent so far.
\<close>

definition check_cycle_monitor ::
  "py_runtime \<Rightarrow> datetime \<Rightarrow> probe_env \<Rightarrow> Monitor \<Rightarrow> Store \<times> email list \<Rightarrow> Store \<times> email list" where
  "check_cycle_monitor rt now_due env m acc =
     (if is_due m now_due then
        (let previous_status = status m;
             po = run_probe rt m env;
             st1 = record_check (m_id m) po env (fst acc);
             st2 = update_uptime_percentage st1 (m_id m) (now_aggregate env)
         in (st2, snd acc @ alert_emails st2 m previous_status (po_status po)))
      else acc)"

text \<open>
  One iteration of the \<^verbatim>\<open>while\<close> loop: the snapshot of at most 1000 monitors is
  walked in order; \<open>world\<close> gives the clock reading and the answers for each monitor.
\<close>

definition monitor_check_cycle ::
  "py_runtime \<Rightarrow> (Monitor \<Rightarrow> datetime \<times> probe_env) \<Rightarrow> Store \<Rightarrow> Store \<times> email list" where
  "monitor_check_cycle rt world st =
     foldl (\<lambda>acc m. check_cycle_monitor rt (fst (world m)) (snd (world m)) m acc) (st, [])
       (find_to_list (\<lambda>d. True) 1000 (monitors st))"

section \<open>Management API\<close>

text \<open>\<^verbatim>\<open>HTTPException(status_code, detail)\<close>; an endpoint answers with it or with a value.\<close>

datatype http_error = HTTPException int string

record MonitorCreate =
  mc_name :: string
  mc_url :: "string option"
  mc_check_interval :: int
  mc_monitor_type :: MonitorType
  mc_timeout :: int
  mc_ssl_domain :: "string option"
  mc_ssl_expiry_threshold :: "int option"
  mc_dns_hostname :: "string option"
  mc_dns_server :: "string option"
  mc_dns_record_type :: "DNSRecordType option"
  mc_expected_dns_result :: "string option"
  mc_port_host :: "string option"
  mc_port_number :: "int option"
  mc_port_protocol :: "PortProtocol option"
  mc_ping_host :: "string option"
  mc_ping_count :: "int option"
  mc_ping_packet_size :: "int option"
  mc_keyword_url :: "string option"
  mc_keyword_text :: "string option"
  mc_keyword_match_type :: "string option"
  mc_api_url :: "string option"
  mc_api_method :: "string option"
  mc_api_headers :: "(string \<times> string) list option"
  mc_api_body :: "string option"
  mc_expected_status_code :: "int option"
  mc_expected_response_time :: "real option"
  mc_json_path :: "string option"
  mc_expected_json_value :: "string option"

fun truthy_int :: "int option \<Rightarrow> bool" where
  "truthy_int None = False"
| "truthy_int (Some x) = (x \<noteq> 0)"

text \<open>The per-kind validation of \<^verbatim>\<open>create_monitor\<close>: the detail of the 400, if any.\<close>

fun validate_create :: "MonitorType \<Rightarrow> MonitorCreate \<Rightarrow> string option" where
  "validate_create HTTP c =
     (if \<not> truthy_str (mc_url c) then Some ''URL is required for HTTP/HTTPS monitors'' else None)"
| "validate_create HTTPS c =
     (if \<not> truthy_str (mc_url c) then Some ''URL is required for HTTP/HTTPS monitors'' else None)"
| "validate_create SSL c =
     (if \<not> truthy_str (mc_ssl_domain c) then Some ''SSL domain is required for SSL monitors''
      else None)"
| "validate_create DNS c =
     (if \<not> truthy_str (mc_dns_hostname c) then Some ''DNS hostname is required for DNS monitors''
      else None)"
| "validate_create PORT c =
     (if \<not> truthy_str (mc_port_host c) \<or> \<not> truthy_int (mc_port_number c)
      then Some ''Port host and number are required for port monitors'' else None)"
| "validate_create PING c =
     (if \<not> truthy_str (mc_ping_host c) then Some ''Ping host is required for ping monitors''
      else None)"
| "validate_create KEYWORD c =
     (if \<not> truthy_str (mc_keyword_url c) \<or> \<not> truthy_str (mc_keyword_text c)
      then Some ''Keyword URL and text are required for keyword monitors'' else None)"
| "validate_create API c =
     (if \<not> truthy_str (mc_api_url c) then Some ''API URL is required for API monitors'' else None)"

text \<open>\<^verbatim>\<open>Monitor(**monitor_dict)\<close> with the fresh identifier and the creation time.\<close>

definition new_monitor :: "string \<Rightarrow> datetime \<Rightarrow> MonitorCreate \<Rightarrow> Monitor" where
  "new_monitor new_id now c =
     \<lparr>m_id = new_id, name = mc_name c, url = mc_url c, check_interval = mc_check_interval c,
      monitor_type = mc_monitor_type c, timeout = mc_timeout c, status = UNKNOWN,
      last_checked = None, response_time = None, created_at = now, uptime_percentage = 0,
      ssl_domain = mc_ssl_domain c, ssl_expiry_threshold = mc_ssl_expiry_threshold c,
      ssl_expires_at = None, dns_hostname = mc_dns_hostname c, dns_server = mc_dns_server c,
      dns_record_type = mc_dns_record_type c, expected_dns_result = mc_expected_dns_result c,
      port_host = mc_port_host c, port_number = mc_port_number c,
      port_protocol = mc_port_protocol c, ping_host = mc_ping_host c,
      ping_count = mc_ping_count c, ping_packet_size = mc_ping_packet_size c,
      ping_packet_loss = None, keyword_url = mc_keyword_url c,
      keyword_text = mc_keyword_text c, keyword_match_type = mc_keyword_match_type c,
      keyword_found = None, api_url = mc_api_url c, api_method = mc_api_method c,
      api_headers = mc_api_headers c, api_body = mc_api_body c,
      expected_status_code = mc_expected_status_code c,
      expected_response_time = mc_expected_response_time c, json_path = mc_json_path c,
      expected_json_value = mc_expected_json_value c, actual_status_code = None,
      json_validation_result = None\<rparr>"

definition create_monitor ::
  "Store \<Rightarrow> MonitorCreate \<Rightarrow> string \<Rightarrow> datetime \<Rightarrow> (http_error + Monitor) \<times> Store" where
  "create_monitor st monitor_data new_id now =
     (case validate_create (mc_monitor_type monitor_data) monitor_data of
        Some detail \<Rightarrow> (Inl (HTTPException 400 detail), st)
      | None \<Rightarrow>
          (Inr (new_monitor new_id now monitor_data),
           st\<lparr>monitors := insert_one (new_monitor new_id now monitor_data) (monitors st)\<rparr>))"

definition get_monitor :: "Store \<Rightarrow> string \<Rightarrow> http_error + Monitor" where
  "get_monitor st mid =
     (case find_one (\<lambda>d. m_id d = mid) (monitors st) of
        None \<Rightarrow> Inl (HTTPException 404 ''Monitor not found'')
      | Some m \<Rightarrow> Inr m)"

definition delete_monitor :: "Store \<Rightarrow> string \<Rightarrow> (http_error + string) \<times> Store" where
  "delete_monitor st mid =
     (case delete_one (\<lambda>d. m_id d = mid) (monitors st) of
        (remaining, deleted_count) \<Rightarrow>
          if deleted_count = 0 then (Inl (HTTPException 404 ''Monitor not found''), st)
          else (Inr ''Monitor deleted successfully'',
                st\<lparr>monitors := remaining,
                   uptime_logs := delete_many (\<lambda>l. log_monitor_id l = mid) (uptime_logs st)\<rparr>))"

text \<open>
  \<^verbatim>\<open>manual_check_monitor\<close>: the answer carries the status, the response time and the
  error text; the third component lists the emails the call sends.
\<close>

definition manual_check_monitor ::
  "py_runtime \<Rightarrow> Store \<Rightarrow> string \<Rightarrow> probe_env \<Rightarrow>
   (http_error + MonitorStatus \<times> real option \<times> string option) \<times> Store \<times> email list" where
  "manual_check_monitor rt st mid env =
     (case find_one (\<lambda>d. m_id d = mid) (monitors st) of
        None \<Rightarrow> (Inl (HTTPException 404 ''Monitor not found''), st, [])
      | Some monitor_obj \<Rightarrow>
          (let po = run_probe rt monitor_obj env
           in (Inr (po_status po, po_response_time po, po_error_msg po),
               record_check mid po env st, [])))"

definition get_dashboard_stats :: "Store \<Rightarrow> DashboardStats" where
  "get_dashboard_stats st =
     (let ms = find_to_list (\<lambda>d. True) 1000 (monitors st);
          total = length ms
      in \<lparr>total_monitors = total,
          monitors_up = length (filter (\<lambda>m. status m = UP) ms),
          monitors_down = length (filter (\<lambda>m. status m = DOWN) ms),
          overall_uptime =
            (if total > 0 then sum_list (map uptime_percentage ms) / real total else 0)\<rparr>)"

definition create_alert_settings ::
  "Store \<Rightarrow> AlertSettingsCreate \<Rightarrow> string \<Rightarrow> datetime \<Rightarrow> (http_error + AlertSettings) \<times> Store" where
  "create_alert_settings st alert_data new_id now =
     (case find_one (\<lambda>d. m_id d = asc_monitor_id alert_data) (monitors st) of
        None \<Rightarrow> (Inl (HTTPException 404 ''Monitor not found''), st)
      | Some monitor \<Rightarrow>
          (case find_one (\<lambda>a. monitor_id a = asc_monitor_id alert_data) (alert_settings st) of
             Some existing \<Rightarrow>
               (Inl (HTTPException 400 ''Alert settings already exist for this monitor''), st)
           | None \<Rightarrow>
               (let alert =
                      \<lparr>alert_id = new_id, monitor_id = asc_monitor_id alert_data,
                       email_enabled = True, email_address = asc_email_address alert_data,
                       alert_on_down = asc_alert_on_down alert_data,
                       alert_on_up = asc_alert_on_up alert_data, alert_created_at = now\<rparr>
                in (Inr alert,
                    st\<lparr>alert_settings := insert_one alert (alert_settings st)\<rparr>))))"

definition get_alert_settings :: "Store \<Rightarrow> string \<Rightarrow> http_error + AlertSettings" where
  "get_alert_settings st mid =
     (case find_one (\<lambda>a. monitor_id a = mid) (alert_settings st) of
        None \<Rightarrow> Inl (HTTPException 404 ''Alert settings not found'')
      | Some a \<Rightarrow> Inr a)"

definition delete_alert_settings :: "Store \<Rightarrow> string \<Rightarrow> (http_error + string) \<times> Store" where
  "delete_alert_settings st mid =
     (case delete_one (\<lambda>a. monitor_id a = mid) (alert_settings st) of
        (remaining, deleted_count) \<Rightarrow>
          if deleted_count = 0 then (Inl (HTTPException 404 ''Alert settings not found''), st)
          else (Inr ''Alert settings deleted successfully'', st\<lparr>alert_settings := remaining\<rparr>))"

text \<open>
  One call of the API and its effect on the store. The \<^verbatim>\<open>GET\<close> endpoints only read
  the collections.
\<close>

datatype api_call =
  CreateMonitor MonitorCreate string datetime
  | GetMonitors
  | GetMonitor string
  | DeleteMonitor string
  | ManualCheck string probe_env
  | GetHistory string int
  | GetLogs string int
  | GetDashboardStats
  | CreateAlert AlertSettingsCreate string datetime
  | GetAlert string
  | DeleteAlert string

fun api_step :: "py_runtime \<Rightarrow> Store \<Rightarrow> api_call \<Rightarrow> Store" where
  "api_step rt st (CreateMonitor c new_id now) = snd (create_monitor st c new_id now)"
| "api_step rt st (DeleteMonitor mid) = snd (delete_monitor st mid)"
| "api_step rt st (ManualCheck mid env) = fst (snd (manual_check_monitor rt st mid env))"
| "api_step rt st (CreateAlert a new_id now) = snd (create_alert_settings st a new_id now)"
| "api_step rt st (DeleteAlert mid) = snd (delete_alert_settings st mid)"
| "api_step rt st other = st"

definition api_run :: "py_runtime \<Rightarrow> Store \<Rightarrow> api_call list \<Rightarrow> Store" where
  "api_run rt st calls = foldl (api_step rt) st calls"

definition empty_store :: Store where
  "empty_store = \<lparr>monitors = [], uptime_logs = [], alert_settings = []\<rparr>"

text \<open>Invariant I4: no two alert settings documents carry the same monitor identifier.\<close>

definition unique_alerts :: "Store \<Rightarrow> bool" where
  "unique_alerts st = distinct (map monitor_id (alert_settings st))"

section \<open>The API probe as the specification words it\<close>

text \<open>
  The order of checks of the API-endpoint probe as the specification states it, a
  parameter being set when it is not \<^verbatim>\<open>None\<close>.
\<close>

definition api_endpoint_spec ::
  "py_runtime \<Rightarrow> int \<Rightarrow> string \<Rightarrow> int \<Rightarrow> real option \<Rightarrow> string option \<Rightarrow> string option
   \<Rightarrow> real \<Rightarrow> MonitorStatus" where
  "api_endpoint_spec rt code body exp_code exp_time path exp_value t =
     (if code \<noteq> exp_code then DOWN
      else if exp_time \<noteq> None \<and> t > the exp_time then WARNING
      else if path \<noteq> None \<and> exp_value \<noteq> None then
        (case json_loads rt body of
           Inl msg \<Rightarrow> DOWN
         | Inr v \<Rightarrow>
             (case navigate rt v (split_dot (the path)) of
                Inl msg \<Rightarrow> DOWN
              | Inr x \<Rightarrow> if py_str rt x = the exp_value then UP else DOWN))
      else UP)"

text \<open>What the source takes for set: a number other than zero, a string other than the empty one.\<close>

definition unset_if_zero :: "real option \<Rightarrow> real option" where
  "unset_if_zero x = (if truthy_real x then x else None)"

definition unset_if_empty :: "string option \<Rightarrow> string option" where
  "unset_if_empty x = (if truthy_str x then x else None)"

section \<open>Sample data\<close>

text \<open>\<^verbatim>\<open>MonitorCreate(name=n)\<close> with the defaults of the model class.\<close>

definition default_create :: "string \<Rightarrow> MonitorCreate" where
  "default_create n =
     \<lparr>mc_name = n, mc_url = None, mc_check_interval = 300, mc_monitor_type = HTTPS,
      mc_timeout = 10, mc_ssl_domain = None, mc_ssl_expiry_threshold = Some 30,
      mc_dns_hostname = None, mc_dns_server = Some ''8.8.8.8'', mc_dns_record_type = Some A,
      mc_expected_dns_result = None, mc_port_host = None, mc_port_number = None,
      mc_port_protocol = Some TCP, mc_ping_host = None, mc_ping_count = Some 4,
      mc_ping_packet_size = Some 32, mc_keyword_url = None, mc_keyword_text = None,
      mc_keyword_match_type = Some ''contains'', mc_api_url = None, mc_api_method = Some ''GET'',
      mc_api_headers = None, mc_api_body = None, mc_expected_status_code = Some 200,
      mc_expected_response_time = None, mc_json_path = None, mc_expected_json_value = None\<rparr>"

definition home_monitor :: Monitor where
  "home_monitor =
     new_monitor ''m1'' 0 ((default_create ''Home'')\<lparr>mc_url := Some ''https://example.com''\<rparr>)"

definition home_alert :: AlertSettings where
  "home_alert =
     \<lparr>alert_id = ''a1'', monitor_id = ''m1'', email_enabled = True, email_address = ''a@b'',
      alert_on_down = True, alert_on_up = True, alert_created_at = 0\<rparr>"

definition sample_log :: "string \<Rightarrow> string \<Rightarrow> datetime \<Rightarrow> MonitorStatus \<Rightarrow> UptimeLog" where
  "sample_log lid mid ts s =
     \<lparr>log_id = lid, log_monitor_id = mid, timestamp = ts, log_status = s,
      log_response_time = None, error_message = None, log_ssl_expires_at = None,
      ssl_days_until_expiry = None, dns_resolution_time = None, dns_result = None,
      port_open = None, log_ping_packet_loss = None, ping_min_time = None,
      ping_max_time = None, ping_avg_time = None, log_keyword_found = None,
      keyword_match_count = None, api_status_code = None, api_response_size = None,
      json_validation_passed = None\<rparr>"

definition home_store :: Store where
  "home_store =
     \<lparr>monitors = [home_monitor], uptime_logs = [sample_log ''l1'' ''m1'' 5 UP],
      alert_settings = [home_alert]\<rparr>"

text \<open>A runtime that parses the two bodies of the end-to-end scenario for the API probe.\<close>

definition ok_status_body :: string where
  \<open>ok_status_body = ''{"data":{"status":"ok"}}''\<close>

definition bad_status_body :: string where
  \<open>bad_status_body = ''{"data":{"status":"bad"}}''\<close>

definition sample_runtime :: py_runtime where
  "sample_runtime =
     \<lparr>json_loads = (\<lambda>s. if s = ok_status_body
                          then Inr (JObj [(''data'', JObj [(''status'', JStr ''ok'')])])
                          else if s = bad_status_body
                          then Inr (JObj [(''data'', JObj [(''status'', JStr ''bad'')])])
                          else Inl ''Expecting value''),
      repr = (\<lambda>v. ''?''),
      type_error_text = (\<lambda>v. ''object is not subscriptable''),
      float_2f = (\<lambda>x. ''?''),
      float_str = (\<lambda>x. ''?''),
      regex_findall = (\<lambda>p s. Inr 0),
      none_error_text = (\<lambda>opn. ''NoneType'')\<rparr>"

definition bad_status_response :: http_response where
  "bad_status_response = \<lparr>http_status = 200, http_text = Returned bad_status_body\<rparr>"

definition ok_status_response :: http_response where
  "ok_status_response = \<lparr>http_status = 200, http_text = Returned ok_status_body\<rparr>"

section \<open>Aggregates as the specification words them\<close>

text \<open>The number of UP logs, the uptime ratio of a set of logs, and the mean uptime of a set of monitors.\<close>

definition count_up :: "UptimeLog list \<Rightarrow> nat" where
  "count_up logs = length (filter (\<lambda>l. log_status l = UP) logs)"

definition uptime_ratio :: "UptimeLog list \<Rightarrow> real" where
  "uptime_ratio logs = real (count_up logs) / real (length logs) * 100"

definition monitor_uptime :: "Store \<Rightarrow> string \<Rightarrow> real option" where
  "monitor_uptime st mid = map_option uptime_percentage (find_one (\<lambda>d. m_id d = mid) (monitors st))"

definition thousand :: "nat list" where
  "thousand = [0..<1000]"

definition busy_logs :: "UptimeLog list" where
  "busy_logs = map (\<lambda>i. sample_log (str_nat i) ''m1'' 5 UP) thousand
               @ [sample_log ''1000'' ''m1'' 6 DOWN]"

definition busy_store :: Store where
  "busy_store = \<lparr>monitors = [home_monitor], uptime_logs = busy_logs, alert_settings = []\<rparr>"

definition mixed_store :: Store where
  "mixed_store =
     \<lparr>monitors = [home_monitor],
      uptime_logs = [sample_log ''l1'' ''m1'' 5 UP, sample_log ''l2'' ''m1'' 6 WARNING,
                     sample_log ''l3'' ''m1'' 7 DOWN, sample_log ''l4'' ''m1'' 8 UP,
                     sample_log ''l5'' ''m2'' 8 UP],
      alert_settings = []\<rparr>"

definition count_status :: "MonitorStatus \<Rightarrow> Monitor list \<Rightarrow> nat" where
  "count_status s ms = length (filter (\<lambda>m. status m = s) ms)"

definition mean_uptime :: "Monitor list \<Rightarrow> real" where
  "mean_uptime ms = (if ms = [] then 0 else sum_list (map uptime_percentage ms) / real (length ms))"

definition crowd :: "Monitor list" where
  "crowd = map (\<lambda>i. (new_monitor (str_nat i) 0 (default_create ''Home''))\<lparr>uptime_percentage := 100\<rparr>)
             thousand @ [home_monitor]"

definition crowd_store :: Store where
  "crowd_store = \<lparr>monitors = crowd, uptime_logs = [], alert_settings = []\<rparr>"

definition trio_store :: Store where
  "trio_store =
     \<lparr>monitors = [home_monitor\<lparr>status := UP, uptime_percentage := 100\<rparr>,
                  home_monitor\<lparr>m_id := ''m2'', status := WARNING, uptime_percentage := 50\<rparr>,
                  home_monitor\<lparr>m_id := ''m3'', status := DOWN, uptime_percentage := 0\<rparr>,
                  home_monitor\<lparr>m_id := ''m4''\<rparr>],
      uptime_logs = [], alert_settings = []\<rparr>"

text \<open>The text the HTTP-based probes report for an exception.\<close>

definition timeout_text :: "exn \<Rightarrow> string" where
  "timeout_text e = (if exn_class_of e = AsyncioTimeoutError then ''Timeout'' else str_exn e)"

definition dup_alert_create :: AlertSettingsCreate where
  "dup_alert_create =
     \<lparr>asc_monitor_id = ''m1'', asc_email_address = ''c@d'', asc_alert_on_down = True,
      asc_alert_on_up = False\<rparr>"

definition orphan_alert_create :: AlertSettingsCreate where
  "orphan_alert_create =
     \<lparr>asc_monitor_id = ''zz'', asc_email_address = ''c@d'', asc_alert_on_down = True,
      asc_alert_on_up = False\<rparr>"

text \<open>
  A TLS monitor that was UP and whose certificate now expires in 10 days, with alert
  settings that ask for DOWN alerts only; and a failing check of the home page.
\<close>

definition unused_io :: "'a io" where
  "unused_io = Raised (Exn OtherException ''not reached'')"

definition cert_monitor :: Monitor where
  "cert_monitor =
     (new_monitor ''m2'' 0
        ((default_create ''Cert'')\<lparr>mc_monitor_type := SSL, mc_ssl_domain := Some ''example.com''\<rparr>))
       \<lparr>status := UP, last_checked := Some 0\<rparr>"

definition cert_alert :: AlertSettings where
  "cert_alert =
     \<lparr>alert_id = ''a2'', monitor_id = ''m2'', email_enabled = True,
      email_address = ''ops@example.com'', alert_on_down = True, alert_on_up = False,
      alert_created_at = 0\<rparr>"

definition cert_store :: Store where
  "cert_store = \<lparr>monitors = [cert_monitor], uptime_logs = [], alert_settings = [cert_alert]\<rparr>"

definition cert_env :: probe_env where
  "cert_env =
     \<lparr>elapsed = 1/5, http_io = unused_io, tls_io = Returned 865000000005, dns_io = unused_io,
      conn_io = unused_io, ping_io = unused_io, now_probe = 1000000000,
      now_checked = 1000000000, now_logged = 1000000001, now_aggregate = 1000000002,
      new_log_id = ''l9''\<rparr>"

definition home_env :: probe_env where
  "home_env =
     \<lparr>elapsed = 3/25, http_io = Returned \<lparr>http_status = 500, http_text = Returned []\<rparr>,
      tls_io = unused_io, dns_io = unused_io, conn_io = unused_io, ping_io = unused_io,
      now_probe = 1000000000, now_checked = 1000000000, now_logged = 1000000001,
      now_aggregate = 1000000002, new_log_id = ''l9''\<rparr>"

text \<open>
  The log document of a check before any kind-specific payload is added, and the
  monitor document after the common fields of a check are written.
\<close>

definition plain_log ::
  "string \<Rightarrow> string \<Rightarrow> datetime \<Rightarrow> MonitorStatus \<Rightarrow> real option \<Rightarrow> string option \<Rightarrow> UptimeLog" where
  "plain_log lid mid ts s t e =
     \<lparr>log_id = lid, log_monitor_id = mid, timestamp = ts, log_status = s,
      log_response_time = t, error_message = e, log_ssl_expires_at = None,
      ssl_days_until_expiry = None, dns_resolution_time = None, dns_result = None,
      port_open = None, log_ping_packet_loss = None, ping_min_time = None,
      ping_max_time = None, ping_avg_time = None, log_keyword_found = None,
      keyword_match_count = None, api_status_code = None, api_response_size = None,
      json_validation_passed = None\<rparr>"

definition checked_monitor :: "Monitor \<Rightarrow> probe_env \<Rightarrow> MonitorStatus \<Rightarrow> real option \<Rightarrow> Monitor" where
  "checked_monitor m env s t = m\<lparr>last_checked := Some (now_checked env), status := s, response_time := t\<rparr>"

section \<open>Verified properties\<close>

subsection \<open>Helper facts\<close>

lemma m_id_home: "m_id home_monitor = ''m1''"
  by (simp add: home_monitor_def new_monitor_def)

lemma str_int_500: "str_int 500 = ''500''"
  by (simp add: str_int_def str_nat.simps digit_char_def)

lemma str_int_10: "str_int 10 = ''10''"
  by (simp add: str_int_def str_nat.simps digit_char_def)

lemma str_int_1: "str_int 1 = ''1''"
  by (simp add: str_int_def str_nat.simps digit_char_def)

lemma delete_one_count: "snd (delete_one p xs) \<noteq> 0 \<longleftrightarrow> (\<exists>x \<in> set xs. p x)"
  by (induction xs) auto

subsection \<open>Deleting a monitor\<close>

text \<open>
  C1, as the claim states it, fails: after a successful \<^verbatim>\<open>DELETE /api/monitors/m1\<close> the
  alert settings of monitor \<^verbatim>\<open>m1\<close> are still in the store.
\<close>

theorem delete_monitor_keeps_alerts:
  "fst (delete_monitor home_store ''m1'') = Inr ''Monitor deleted successfully'' \<and>
   alert_settings (snd (delete_monitor home_store ''m1'')) = [home_alert] \<and>
   monitor_id home_alert = ''m1''"
  by (simp add: delete_monitor_def home_store_def m_id_home home_alert_def)

text \<open>
  C1, amended: a \<^verbatim>\<open>DELETE /api/monitors/{id}\<close> succeeds only when a monitor with that
  identifier existed, and after it no log with that monitor identifier remains; the
  alert settings collection is left as it was.
\<close>

theorem delete_monitor_cascades_logs:
  assumes "fst (delete_monitor st mid) = Inr msg"
  shows "(\<exists>m \<in> set (monitors st). m_id m = mid) \<and>
         (\<forall>l \<in> set (uptime_logs (snd (delete_monitor st mid))). log_monitor_id l \<noteq> mid) \<and>
         alert_settings (snd (delete_monitor st mid)) = alert_settings st"
  using assms delete_one_count [of "\<lambda>d. m_id d = mid" "monitors st"]
  by (auto simp: delete_monitor_def delete_many_def split: prod.splits if_splits)

theorem delete_monitor_cascades_logs_witness:
  "fst (delete_monitor home_store ''m1'') = Inr ''Monitor deleted successfully'' \<and>
   uptime_logs (snd (delete_monitor home_store ''m1'')) = [] \<and>
   alert_settings (snd (delete_monitor home_store ''m1'')) = alert_settings home_store"
proof -
  have h: "fst (delete_monitor home_store ''m1'') = Inr ''Monitor deleted successfully''"
    by (simp add: delete_monitor_def home_store_def m_id_home)
  have l: "uptime_logs (snd (delete_monitor home_store ''m1'')) = []"
    by (simp add: delete_monitor_def home_store_def m_id_home delete_many_def sample_log_def)
  from delete_monitor_cascades_logs [OF h] l h show ?thesis by simp
qed

subsection \<open>TLS certificate probe\<close>

text \<open>
  C4: after a successful handshake, with \<open>d\<close> the whole days from now until
  \<^verbatim>\<open>notAfter\<close>: a negative \<open>d\<close> gives DOWN with the text
  \<^verbatim>\<open>Certificate expired N days ago\<close>, \<open>N\<close> the absolute value of \<open>d\<close>; \<open>d\<close> from 0 to the
  threshold gives WARNING with \<^verbatim>\<open>Certificate expires in N days\<close>; a \<open>d\<close> above the
  threshold (and not negative, the first case being decided first) gives UP; the
  expiry date and \<open>d\<close> are returned in all three cases.
\<close>

theorem ssl_expiry_outcome:
  assumes "d = timedelta_days (expiry_date - now)"
  shows "(d < 0 \<longrightarrow>
            check_ssl_certificate (Returned expiry_date) now t threshold =
              (DOWN, Some t, Some (''Certificate expired '' @ str_int (abs d) @ '' days ago''),
               Some expiry_date, Some d)) \<and>
         (0 \<le> d \<and> d \<le> threshold \<longrightarrow>
            check_ssl_certificate (Returned expiry_date) now t threshold =
              (WARNING, Some t, Some (''Certificate expires in '' @ str_int d @ '' days''),
               Some expiry_date, Some d)) \<and>
         (0 \<le> d \<and> threshold < d \<longrightarrow>
            check_ssl_certificate (Returned expiry_date) now t threshold =
              (UP, Some t, None, Some expiry_date, Some d))"
  using assms by (simp add: Let_def)

theorem ssl_expiry_outcome_witness:
  "check_ssl_certificate (Returned 864000000005) 0 (1/5) 30 =
     (WARNING, Some (1/5), Some ''Certificate expires in 10 days'', Some 864000000005, Some 10) \<and>
   check_ssl_certificate (Returned (- 1)) 0 (1/5) 30 =
     (DOWN, Some (1/5), Some ''Certificate expired 1 days ago'', Some (- 1), Some (- 1)) \<and>
   check_ssl_certificate (Returned 864000000005) 0 (1/5) 7 =
     (UP, Some (1/5), None, Some 864000000005, Some 10)"
proof -
  have a: "(10::int) = timedelta_days (864000000005 - 0)" by (simp add: timedelta_days_def)
  have b: "(- 1::int) = timedelta_days (- 1 - 0)" by (simp add: timedelta_days_def)
  from ssl_expiry_outcome [OF a, of "1/5" 30] ssl_expiry_outcome [OF b, of "1/5" 30]
       ssl_expiry_outcome [OF a, of "1/5" 7]
  show ?thesis by (simp add: str_int_10 str_int_1)
qed

subsection \<open>API-endpoint probe\<close>

text \<open>
  C5, as the claim states it, fails: with an expected response time of 0 seconds and
  a response that took 1 second the probe answers UP where the stated order gives
  WARNING, and with the expected JSON value set to the empty string the probe skips
  the comparison and answers UP where the stated order gives DOWN for the mismatch.
\<close>

theorem api_check_order_counterexample:
  "fst (check_api_endpoint sample_runtime (Returned bad_status_response) 200 (Some 0) None None 1)
     = UP \<and>
   api_endpoint_spec sample_runtime 200 bad_status_body 200 (Some 0) None None 1 = WARNING \<and>
   fst (check_api_endpoint sample_runtime (Returned bad_status_response) 200 None
          (Some ''data.status'') (Some []) (1/10)) = UP \<and>
   api_endpoint_spec sample_runtime 200 bad_status_body 200 None
     (Some ''data.status'') (Some []) (1/10) = DOWN"
  by (simp add: bad_status_response_def api_evaluate_def api_endpoint_spec_def
        sample_runtime_def bad_status_body_def ok_status_body_def)

text \<open>
  C5, amended: once the response and its body have arrived, the API-endpoint probe
  evaluates the checks in the stated order and stops at the first failure, where an
  expected response time counts as set only when it is not zero, and the JSON path
  and the expected JSON value count as set only when they are not empty; a failure
  to read the body gives DOWN.
\<close>

theorem api_check_order:
  "fst (check_api_endpoint rt (Returned r) exp_code exp_time path exp_value t) =
     (case http_text r of
        Raised e \<Rightarrow> DOWN
      | Returned body \<Rightarrow>
          api_endpoint_spec rt (http_status r) body exp_code (unset_if_zero exp_time)
            (unset_if_empty path) (unset_if_empty exp_value) t)"
proof (cases "http_text r")
  case (Returned body)
  then show ?thesis
    by (cases exp_time; cases path; cases exp_value)
       (auto simp: api_evaluate_def api_endpoint_spec_def json_validation_def
          unset_if_zero_def unset_if_empty_def split: sum.splits)
next
  case (Raised e)
  obtain c msg where "e = Exn c msg" by (cases e)
  with Raised show ?thesis by (cases c) auto
qed

text \<open>
  The end-to-end scenario of the API probe: the body with status \<^verbatim>\<open>ok\<close> gives UP with
  a passed validation, the body with status \<^verbatim>\<open>bad\<close> gives DOWN.
\<close>

lemma api_scenario:
  "check_api_endpoint sample_runtime (Returned ok_status_response) 200 None
     (Some ''data.status'') (Some ''ok'') (1/10) = (UP, Some (1/10), None, 200, True, Some 24) \<and>
   fst (check_api_endpoint sample_runtime (Returned bad_status_response) 200 None
     (Some ''data.status'') (Some ''ok'') (1/10)) = DOWN"
  by (simp add: ok_status_response_def bad_status_response_def api_evaluate_def
        json_validation_def sample_runtime_def ok_status_body_def bad_status_body_def)

subsection \<open>HTTP probe\<close>

text \<open>
  C6: an HTTP or HTTPS probe that receives a response answers UP exactly when the
  response status is 200, and otherwise DOWN with the error text \<^verbatim>\<open>HTTP <code>\<close>.
\<close>

theorem check_url_up_iff_200:
  "(fst (check_url (Returned r) t) = UP \<longleftrightarrow> http_status r = 200) \<and>
   (http_status r \<noteq> 200 \<longrightarrow>
      check_url (Returned r) t = (DOWN, Some t, Some (''HTTP '' @ str_int (http_status r))))"
  by simp

theorem check_url_up_iff_200_witness:
  "fst (check_url (Returned \<lparr>http_status = 200, http_text = Returned ''ok''\<rparr>) (3/25)) = UP \<and>
   (500::int) \<noteq> 200 \<and>
   check_url (Returned \<lparr>http_status = 500, http_text = Returned []\<rparr>) (3/25)
     = (DOWN, Some (3/25), Some ''HTTP 500'')"
  using check_url_up_iff_200 [of "\<lparr>http_status = 500, http_text = Returned []\<rparr>" "3/25"]
        check_url_up_iff_200 [of "\<lparr>http_status = 200, http_text = Returned ''ok''\<rparr>" "3/25"]
  by (simp add: str_int_500)

subsection \<open>Uptime aggregator\<close>

lemma find_one_update_one:
  assumes "\<And>x. p (f x) = p x"
  shows "find_one p (update_one p f xs) = map_option f (find_one p xs)"
  by (induction xs) (auto simp: find_one_def assms)

lemma log_fields [simp]:
  "log_monitor_id (sample_log lid mid ts s) = mid"
  "timestamp (sample_log lid mid ts s) = ts"
  "log_status (sample_log lid mid ts s) = s"
  by (simp_all add: sample_log_def)

lemma length_thousand: "length thousand = 1000"
  unfolding thousand_def length_upt by simp

lemma thousand_nonempty: "thousand \<noteq> []"
  using length_thousand by auto

lemma recent_busy: "recent_logs busy_store ''m1'' 10 = busy_logs"
  by (simp add: recent_logs_def busy_store_def busy_logs_def twenty_four_hours_def)

lemma take_busy: "take 1000 busy_logs = map (\<lambda>i. sample_log (str_nat i) ''m1'' 5 UP) thousand"
  by (simp add: busy_logs_def length_thousand)

lemma count_up_replicated:
  "length (filter (\<lambda>l. log_status l = UP) (map (\<lambda>i. sample_log (f i) mid ts UP) xs)) = length xs"
  by (induction xs) simp_all

text \<open>
  C3, as the claim states it, fails: with 1001 logs of the monitor in the last 24
  hours, the first 1000 of them UP and the last one DOWN, the aggregator stores 100
  where the ratio over all of them is 100000/1001.
\<close>

theorem uptime_aggregate_counterexample:
  "monitor_uptime (update_uptime_percentage busy_store ''m1'' 10) ''m1'' = Some 100 \<and>
   uptime_ratio (recent_logs busy_store ''m1'' 10) = 100000 / 1001"
proof -
  have c: "count_up busy_logs = 1000"
    by (simp add: count_up_def busy_logs_def count_up_replicated length_thousand)
  have l: "length busy_logs = 1001" by (simp add: busy_logs_def length_thousand)
  have r: "uptime_ratio (recent_logs busy_store ''m1'' 10) = 100000 / 1001"
    by (simp add: recent_busy uptime_ratio_def c l)
  have f: "find_to_list (\<lambda>l. log_monitor_id l = ''m1'' \<and> timestamp l \<ge> 10 - twenty_four_hours)
             1000 (uptime_logs busy_store) = take 1000 busy_logs"
    using recent_busy by (simp add: find_to_list_def recent_logs_def)
  have u: "monitor_uptime (update_uptime_percentage busy_store ''m1'' 10) ''m1'' = Some 100"
    unfolding update_uptime_percentage_def f take_busy
    by (simp add: Let_def count_up_replicated monitor_uptime_def busy_store_def m_id_home
          find_one_def length_thousand thousand_nonempty)
  from u r show ?thesis by simp
qed

text \<open>
  C3, amended: for a monitor of the store, with \<open>L\<close> the first 1000 (in store order) of
  its logs whose timestamp lies in the last 24 hours, which are all of them when there
  are at most 1000, the aggregator sets \<^verbatim>\<open>uptime_percentage\<close> to the number of UP logs
  of \<open>L\<close> divided by the size of \<open>L\<close> times 100 when \<open>L\<close> is not empty, warning logs
  counting as not UP, and leaves the store unchanged when \<open>L\<close> is empty.
\<close>

theorem uptime_aggregate:
  assumes "find_one (\<lambda>d. m_id d = mid) (monitors st) = Some m"
    and "L = take 1000 (recent_logs st mid now)"
  shows "monitor_uptime (update_uptime_percentage st mid now) mid =
           Some (if L = [] then uptime_percentage m else uptime_ratio L) \<and>
         (L = [] \<longrightarrow> update_uptime_percentage st mid now = st) \<and>
         (length (recent_logs st mid now) \<le> 1000 \<longrightarrow> L = recent_logs st mid now) \<and>
         (L = [] \<longleftrightarrow> recent_logs st mid now = [])"
proof -
  have f: "find_to_list (\<lambda>l. log_monitor_id l = mid \<and> timestamp l \<ge> now - twenty_four_hours)
             1000 (uptime_logs st) = L"
    using assms(2) by (simp add: find_to_list_def recent_logs_def)
  have "monitor_uptime (update_uptime_percentage st mid now) mid =
           Some (if L = [] then uptime_percentage m else uptime_ratio L)"
    unfolding update_uptime_percentage_def f
    using assms(1)
    by (simp add: Let_def monitor_uptime_def find_one_update_one uptime_ratio_def count_up_def)
  moreover have "L = [] \<longrightarrow> update_uptime_percentage st mid now = st"
    unfolding update_uptime_percentage_def f by simp
  moreover have "length (recent_logs st mid now) \<le> 1000 \<longrightarrow> L = recent_logs st mid now"
    using assms(2) by simp
  moreover have "L = [] \<longleftrightarrow> recent_logs st mid now = []"
    using assms(2) by simp
  ultimately show ?thesis by blast
qed

theorem uptime_aggregate_witness:
  "monitor_uptime (update_uptime_percentage mixed_store ''m1'' 10) ''m1'' = Some 50 \<and>
   monitor_uptime (update_uptime_percentage mixed_store ''m1'' 90000000000) ''m1'' = Some 0"
proof -
  have m: "find_one (\<lambda>d. m_id d = ''m1'') (monitors mixed_store) = Some home_monitor"
    by (simp add: find_one_def mixed_store_def m_id_home)
  have a: "[sample_log ''l1'' ''m1'' 5 UP, sample_log ''l2'' ''m1'' 6 WARNING,
            sample_log ''l3'' ''m1'' 7 DOWN, sample_log ''l4'' ''m1'' 8 UP]
           = take 1000 (recent_logs mixed_store ''m1'' 10)"
    by (simp add: recent_logs_def mixed_store_def twenty_four_hours_def)
  have b: "[] = take 1000 (recent_logs mixed_store ''m1'' 90000000000)"
    by (simp add: recent_logs_def mixed_store_def twenty_four_hours_def)
  have u: "uptime_percentage home_monitor = 0"
    by (simp add: home_monitor_def new_monitor_def)
  from conjunct1 [OF uptime_aggregate [OF m a]] conjunct1 [OF uptime_aggregate [OF m b]] u
  show ?thesis by (simp add: uptime_ratio_def count_up_def)
qed


subsection \<open>Dashboard statistics\<close>

lemma status_count_total:
  "count_status UP ms + count_status DOWN ms + count_status WARNING ms + count_status UNKNOWN ms
     = length ms"
proof (induction ms)
  case Nil
  show ?case by (simp add: count_status_def)
next
  case (Cons m ms)
  then show ?case by (cases "status m") (simp_all add: count_status_def)
qed

text \<open>
  C10, amended: over the monitors the query returns, which are the first 1000 of the
  store and all of them when there are at most 1000, \<^verbatim>\<open>monitors_up\<close> counts those
  whose status is UP and \<^verbatim>\<open>monitors_down\<close> those whose status is DOWN, monitors in
  warning or unknown status are in neither count, the two counts together are at most
  \<^verbatim>\<open>total_monitors\<close>, and \<^verbatim>\<open>overall_uptime\<close> is the arithmetic mean of
  \<^verbatim>\<open>uptime_percentage\<close>, and 0 when there are no monitors.
\<close>

theorem dashboard_stats:
  assumes "ms = take 1000 (monitors st)"
  shows "total_monitors (get_dashboard_stats st) = length ms \<and>
         monitors_up (get_dashboard_stats st) = count_status UP ms \<and>
         monitors_down (get_dashboard_stats st) = count_status DOWN ms \<and>
         monitors_up (get_dashboard_stats st) + monitors_down (get_dashboard_stats st)
           + count_status WARNING ms + count_status UNKNOWN ms
           = total_monitors (get_dashboard_stats st) \<and>
         monitors_up (get_dashboard_stats st) + monitors_down (get_dashboard_stats st)
           \<le> total_monitors (get_dashboard_stats st) \<and>
         overall_uptime (get_dashboard_stats st) = mean_uptime ms \<and>
         (monitors st = [] \<longrightarrow> overall_uptime (get_dashboard_stats st) = 0) \<and>
         (length (monitors st) \<le> 1000 \<longrightarrow> ms = monitors st)"
proof -
  have f: "find_to_list (\<lambda>d. True) 1000 (monitors st) = ms"
    using assms by (simp add: find_to_list_def)
  have t: "total_monitors (get_dashboard_stats st) = length ms"
    by (simp add: get_dashboard_stats_def f Let_def)
  have u: "monitors_up (get_dashboard_stats st) = count_status UP ms"
    by (simp add: get_dashboard_stats_def f Let_def count_status_def)
  have d: "monitors_down (get_dashboard_stats st) = count_status DOWN ms"
    by (simp add: get_dashboard_stats_def f Let_def count_status_def)
  have o: "overall_uptime (get_dashboard_stats st) = mean_uptime ms"
    by (simp add: get_dashboard_stats_def f Let_def mean_uptime_def)
  have e: "monitors st = [] \<longrightarrow> overall_uptime (get_dashboard_stats st) = 0"
    using assms o by (simp add: mean_uptime_def)
  have a: "length (monitors st) \<le> 1000 \<longrightarrow> ms = monitors st"
    using assms by simp
  from status_count_total [of ms] t u d o e a show ?thesis by simp
qed

lemma crowd_fields [simp]:
  "uptime_percentage ((new_monitor k 0 (default_create n))\<lparr>uptime_percentage := x\<rparr>) = x"
  by simp

lemma sum_const_map: "sum_list (map (\<lambda>i. c) xs) = real (length xs) * c"
  by (induction xs) (simp_all add: algebra_simps)

text \<open>
  C10, as the claim states it, fails: with 1001 monitors in the store, the first 1000
  at 100 percent and the last at 0, the endpoint reports 1000 monitors and an overall
  uptime of 100 where the mean over all monitors is 100000/1001.
\<close>

theorem dashboard_stats_counterexample:
  "total_monitors (get_dashboard_stats crowd_store) = 1000 \<and>
   length (monitors crowd_store) = 1001 \<and>
   overall_uptime (get_dashboard_stats crowd_store) = 100 \<and>
   mean_uptime (monitors crowd_store) = 100000 / 1001"
proof -
  have l: "length crowd = 1001" by (simp add: crowd_def length_thousand)
  have tk: "take 1000 crowd =
      map (\<lambda>i. (new_monitor (str_nat i) 0 (default_create ''Home''))\<lparr>uptime_percentage := 100\<rparr>)
        thousand"
    by (simp add: crowd_def length_thousand)
  have s1: "sum_list (map uptime_percentage (take 1000 crowd)) = 100000"
    unfolding tk by (simp add: comp_def sum_const_map length_thousand)
  have h: "uptime_percentage home_monitor = 0"
    by (simp add: home_monitor_def new_monitor_def)
  have s2: "sum_list (map uptime_percentage crowd) = 100000"
    by (simp add: crowd_def comp_def sum_const_map length_thousand h)
  have ne: "crowd \<noteq> []" by (simp add: crowd_def)
  have m: "mean_uptime (monitors crowd_store) = 100000 / 1001"
    by (simp add: mean_uptime_def crowd_store_def s2 l ne)
  have t: "total_monitors (get_dashboard_stats crowd_store) = 1000"
    by (simp add: get_dashboard_stats_def find_to_list_def Let_def crowd_store_def l)
  have o: "overall_uptime (get_dashboard_stats crowd_store) = 100"
    by (simp add: get_dashboard_stats_def find_to_list_def Let_def crowd_store_def l s1 ne)
  from l m t o show ?thesis by (simp add: crowd_store_def)
qed

theorem dashboard_stats_witness:
  "total_monitors (get_dashboard_stats trio_store) = 4 \<and>
   monitors_up (get_dashboard_stats trio_store) = 1 \<and>
   monitors_down (get_dashboard_stats trio_store) = 1 \<and>
   overall_uptime (get_dashboard_stats trio_store) = 75 / 2 \<and>
   overall_uptime (get_dashboard_stats empty_store) = 0"
proof -
  have a: "monitors trio_store = take 1000 (monitors trio_store)"
    by (simp add: trio_store_def)
  have b: "[] = take 1000 (monitors empty_store)"
    by (simp add: empty_store_def)
  have h: "uptime_percentage home_monitor = 0" "status home_monitor = UNKNOWN"
    by (simp_all add: home_monitor_def new_monitor_def)
  from dashboard_stats [OF a] dashboard_stats [OF b] h
  show ?thesis
    by (simp add: trio_store_def count_status_def mean_uptime_def empty_store_def)
qed

subsection \<open>Failures inside the probes\<close>

text \<open>
  C7, amended: every probe primitive turns every exception raised by its input and
  output into a DOWN result with a message and an empty payload, so nothing is raised
  past the probe; on a timeout the HTTP, keyword and API probes report \<^verbatim>\<open>Timeout\<close>, the
  TLS probe \<^verbatim>\<open>Connection timeout\<close> and the DNS probe \<^verbatim>\<open>DNS resolution timeout\<close>; the
  response time is the measured elapsed time, and none for the ping probe.
\<close>

theorem probes_absorb_failures:
  "check_url (Raised e) t = (DOWN, Some t, Some (timeout_text e)) \<and>
   check_keyword rt (Raised e) keyword match_type t = (DOWN, Some t, Some (timeout_text e), False, 0) \<and>
   check_keyword rt (Returned \<lparr>http_status = 200, http_text = Raised e\<rparr>) keyword match_type t
     = (DOWN, Some t, Some (timeout_text e), False, 0) \<and>
   check_api_endpoint rt (Raised e) exp_code exp_time path exp_value t
     = (DOWN, Some t, Some (timeout_text e), 0, False, None) \<and>
   check_api_endpoint rt (Returned \<lparr>http_status = code, http_text = Raised e\<rparr>) exp_code exp_time
       path exp_value t
     = (DOWN, Some t, Some (timeout_text e), 0, False, None) \<and>
   check_ssl_certificate (Raised e) now t threshold
     = (DOWN, Some t,
        Some (if exn_class_of e = SocketTimeout then ''Connection timeout'' else str_exn e),
        None, None) \<and>
   check_dns_resolution (Raised e) expected t
     = (DOWN, Some t,
        Some (if exn_class_of e = DnsNXDOMAIN then ''Domain does not exist''
              else if exn_class_of e = DnsTimeout then ''DNS resolution timeout''
              else str_exn e),
        None) \<and>
   fst (check_port_connectivity protocol (Raised e) t) = DOWN \<and>
   fst (snd (snd (check_port_connectivity protocol (Raised e) t))) \<noteq> None \<and>
   snd (snd (snd (check_port_connectivity protocol (Raised e) t))) = False \<and>
   check_ping (Raised e) = (DOWN, None, Some (str_exn e), None, None, None, None)"
proof -
  obtain c msg where e: "e = Exn c msg" by (cases e)
  show ?thesis unfolding e
    by (cases c) (simp_all add: timeout_text_def check_port_connectivity_def)
qed

text \<open>
  C7, as the claim states it, fails: on a timeout the HTTP probe reports the message
  \<^verbatim>\<open>Timeout\<close>, not \<^verbatim>\<open>timeout\<close>, and the TLS and DNS probes report texts of their own.
\<close>

theorem probe_timeout_counterexample:
  "check_url (Raised (Exn AsyncioTimeoutError [])) 10 = (DOWN, Some 10, Some ''Timeout'') \<and>
   check_url (Raised (Exn AsyncioTimeoutError [])) 10 \<noteq> (DOWN, Some 10, Some ''timeout'') \<and>
   check_ssl_certificate (Raised (Exn SocketTimeout ''timed out'')) 0 10 30
     = (DOWN, Some 10, Some ''Connection timeout'', None, None) \<and>
   check_dns_resolution (Raised (Exn DnsTimeout ''The DNS operation timed out.'')) None 10
     = (DOWN, Some 10, Some ''DNS resolution timeout'', None)"
  by simp

subsection \<open>Alert settings\<close>

lemma find_one_None_iff: "find_one p xs = None \<longleftrightarrow> (\<forall>x \<in> set xs. \<not> p x)"
  by (auto simp: find_one_def find_None_iff)

lemma delete_one_subset: "set (fst (delete_one p xs)) \<subseteq> set xs"
  by (induction xs) auto

lemma delete_one_distinct:
  "distinct (map f xs) \<Longrightarrow> distinct (map f (fst (delete_one p xs)))"
proof (induction xs)
  case Nil
  then show ?case by simp
next
  case (Cons x xs)
  then show ?case using delete_one_subset [of p xs] by auto
qed

lemma record_check_alerts: "alert_settings (record_check mid po env st) = alert_settings st"
  by (simp add: record_check_def)

lemma create_alert_unique:
  "unique_alerts st \<Longrightarrow> unique_alerts (snd (create_alert_settings st a nid now))"
  by (auto simp: unique_alerts_def create_alert_settings_def insert_one_def Let_def
        find_one_None_iff split: option.splits)

lemma delete_alert_unique:
  "unique_alerts st \<Longrightarrow> unique_alerts (snd (delete_alert_settings st mid))"
  by (auto simp: unique_alerts_def delete_alert_settings_def delete_one_distinct
        split: prod.splits if_splits)
     (metis delete_one_distinct fst_conv)

lemma api_step_unique: "unique_alerts st \<Longrightarrow> unique_alerts (api_step rt st c)"
proof (cases c)
  case (CreateMonitor x1 x2 x3)
  assume "unique_alerts st"
  with CreateMonitor show ?thesis
    by (simp add: create_monitor_def unique_alerts_def split: option.splits)
next
  case (DeleteMonitor x)
  assume "unique_alerts st"
  with DeleteMonitor show ?thesis
    by (simp add: delete_monitor_def unique_alerts_def split: prod.splits)
next
  case (ManualCheck x1 x2)
  assume "unique_alerts st"
  with ManualCheck show ?thesis
    by (simp add: manual_check_monitor_def unique_alerts_def record_check_alerts Let_def
          split: option.splits)
next
  case (CreateAlert x1 x2 x3)
  assume "unique_alerts st"
  with CreateAlert show ?thesis by (simp add: create_alert_unique)
next
  case (DeleteAlert x)
  assume "unique_alerts st"
  with DeleteAlert show ?thesis by (simp add: delete_alert_unique)
qed simp_all

lemma api_run_unique: "unique_alerts st \<Longrightarrow> unique_alerts (api_run rt st calls)"
  unfolding api_run_def
  by (induction calls arbitrary: st) (simp_all add: api_step_unique)

text \<open>
  C8: \<^verbatim>\<open>POST /api/alerts\<close> fails with 404 when the monitor does not exist and with 400
  when alert settings already exist for the monitor, the store being unchanged in both
  cases; so after any sequence of API calls no two alert settings documents carry the
  same monitor identifier.
\<close>

theorem alert_settings_unique:
  "(find_one (\<lambda>d. m_id d = asc_monitor_id a) (monitors st) = None \<longrightarrow>
      create_alert_settings st a nid now = (Inl (HTTPException 404 ''Monitor not found''), st)) \<and>
   (find_one (\<lambda>d. m_id d = asc_monitor_id a) (monitors st) \<noteq> None \<and>
    find_one (\<lambda>x. monitor_id x = asc_monitor_id a) (alert_settings st) \<noteq> None \<longrightarrow>
      create_alert_settings st a nid now =
        (Inl (HTTPException 400 ''Alert settings already exist for this monitor''), st)) \<and>
   (unique_alerts st \<longrightarrow> unique_alerts (api_run rt st calls)) \<and>
   unique_alerts (api_run rt empty_store calls)"
proof -
  have "unique_alerts empty_store" by (simp add: unique_alerts_def empty_store_def)
  then have "unique_alerts (api_run rt empty_store calls)" by (rule api_run_unique)
  then show ?thesis
    by (auto simp: create_alert_settings_def api_run_unique split: option.splits)
qed

theorem alert_settings_unique_witness:
  "create_alert_settings home_store orphan_alert_create ''a2'' 7
     = (Inl (HTTPException 404 ''Monitor not found''), home_store) \<and>
   create_alert_settings home_store dup_alert_create ''a2'' 7
     = (Inl (HTTPException 400 ''Alert settings already exist for this monitor''), home_store) \<and>
   unique_alerts home_store \<and>
   unique_alerts (api_run sample_runtime home_store
      [CreateAlert dup_alert_create ''a2'' 7, DeleteAlert ''m1'',
       CreateAlert dup_alert_create ''a3'' 8, CreateAlert dup_alert_create ''a4'' 9])"
proof -
  have n: "find_one (\<lambda>d. m_id d = asc_monitor_id orphan_alert_create) (monitors home_store) = None"
    by (simp add: find_one_def home_store_def orphan_alert_create_def m_id_home)
  have m: "find_one (\<lambda>d. m_id d = asc_monitor_id dup_alert_create) (monitors home_store) \<noteq> None \<and>
           find_one (\<lambda>x. monitor_id x = asc_monitor_id dup_alert_create) (alert_settings home_store)
             \<noteq> None"
    by (simp add: find_one_def home_store_def dup_alert_create_def m_id_home home_alert_def)
  have u: "unique_alerts home_store"
    by (simp add: unique_alerts_def home_store_def)
  from n m u
    alert_settings_unique [of orphan_alert_create home_store "''a2''" 7 sample_runtime "[]"]
    alert_settings_unique [of dup_alert_create home_store "''a2''" 7 sample_runtime
      "[CreateAlert dup_alert_create ''a2'' 7, DeleteAlert ''m1'',
        CreateAlert dup_alert_create ''a3'' 8, CreateAlert dup_alert_create ''a4'' 9]"]
  show ?thesis by blast
qed

subsection \<open>Manual check\<close>

lemma run_probe_update_frame:
  "uptime_percentage (po_update (run_probe rt m env) d) = uptime_percentage d"
  "m_id (po_update (run_probe rt m env) d) = m_id d"
  "status (po_update (run_probe rt m env) d) = status d"
  "response_time (po_update (run_probe rt m env) d) = response_time d"
  "last_checked (po_update (run_probe rt m env) d) = last_checked d"
  by (cases "monitor_type m";
      simp add: run_probe_def probe_http_def probe_ssl_def probe_dns_def probe_port_def
        probe_ping_def probe_keyword_def probe_api_def split: prod.splits)+

lemma run_probe_log_frame:
  "log_monitor_id (po_log (run_probe rt m env) l) = log_monitor_id l"
  "log_status (po_log (run_probe rt m env) l) = log_status l"
  by (cases "monitor_type m";
      simp add: run_probe_def probe_http_def probe_ssl_def probe_dns_def probe_port_def
        probe_ping_def probe_keyword_def probe_api_def split: prod.splits)+

lemma run_probe_kind_fields:
  "monitor_type m = KEYWORD \<Longrightarrow> keyword_found (po_update (run_probe rt m env) d) \<noteq> None"
  "monitor_type m = API \<Longrightarrow> actual_status_code (po_update (run_probe rt m env) d) \<noteq> None"
  "monitor_type m = API \<Longrightarrow> json_validation_result (po_update (run_probe rt m env) d) \<noteq> None"
  by (simp_all add: run_probe_def probe_keyword_def probe_api_def split: prod.splits)

lemma apply_update_data_frame:
  "uptime_percentage (apply_update_data (run_probe rt m env) env d) = uptime_percentage d"
  "m_id (apply_update_data (run_probe rt m env) env d) = m_id d"
  by (simp_all add: apply_update_data_def run_probe_update_frame)

lemma update_one_map_frame:
  assumes "\<And>x. g (f x) = g x"
  shows "map g (update_one p f xs) = map g xs"
  by (induction xs) (simp_all add: assms)

lemma manual_http:
  assumes "monitor_type m = HTTP \<or> monitor_type m = HTTPS"
    and "check_url (http_io env) (elapsed env) = (s, t, e)"
  shows "apply_update_data (run_probe rt m env) env m = checked_monitor m env s t"
    and "make_uptime_log mid (run_probe rt m env) env
           = plain_log (new_log_id env) mid (now_logged env) s t e"
    and "po_error_msg (run_probe rt m env) = e"
  using assms
  by (auto simp: run_probe_def probe_http_def apply_update_data_def checked_monitor_def
        make_uptime_log_def plain_log_def)

lemma manual_ssl:
  assumes "monitor_type m = SSL"
    and "check_ssl_certificate (tls_io env) (now_probe env) (elapsed env)
           (or_int (ssl_expiry_threshold m) 30) = (s, t, e, expiry, days)"
  shows "apply_update_data (run_probe rt m env) env m =
           (checked_monitor m env s t)
             \<lparr>ssl_expires_at := (if expiry = None then ssl_expires_at m else expiry)\<rparr>"
    and "make_uptime_log mid (run_probe rt m env) env =
           (plain_log (new_log_id env) mid (now_logged env) s t e)
             \<lparr>log_ssl_expires_at := expiry,
              ssl_days_until_expiry := (if expiry = None then None else days)\<rparr>"
    and "po_error_msg (run_probe rt m env) = e"
  using assms
  by (auto simp: run_probe_def probe_ssl_def apply_update_data_def checked_monitor_def
        make_uptime_log_def plain_log_def)

lemma manual_dns:
  assumes "monitor_type m = DNS"
    and "check_dns_resolution (dns_io env) (expected_dns_result m) (elapsed env)
           = (s, t, e, resolved)"
  shows "apply_update_data (run_probe rt m env) env m = checked_monitor m env s t"
    and "make_uptime_log mid (run_probe rt m env) env =
           (plain_log (new_log_id env) mid (now_logged env) s t e)
             \<lparr>dns_resolution_time := t, dns_result := resolved\<rparr>"
    and "po_error_msg (run_probe rt m env) = e"
  using assms
  by (auto simp: run_probe_def probe_dns_def apply_update_data_def checked_monitor_def
        make_uptime_log_def plain_log_def)

lemma manual_port:
  assumes "monitor_type m = PORT"
    and "check_port_connectivity
           (case port_protocol m of None \<Rightarrow> ''tcp'' | Some pr \<Rightarrow> PortProtocol_value pr)
           (conn_io env) (elapsed env) = (s, t, e, is_open)"
  shows "apply_update_data (run_probe rt m env) env m = checked_monitor m env s t"
    and "make_uptime_log mid (run_probe rt m env) env =
           (plain_log (new_log_id env) mid (now_logged env) s t e)\<lparr>port_open := Some is_open\<rparr>"
    and "po_error_msg (run_probe rt m env) = e"
  using assms
  by (auto simp: run_probe_def probe_port_def apply_update_data_def checked_monitor_def
        make_uptime_log_def plain_log_def)

lemma manual_ping:
  assumes "monitor_type m = PING"
    and "check_ping (ping_io env) = (s, avg, e, loss, mn, mx, avg_detailed)"
  shows "apply_update_data (run_probe rt m env) env m =
           (checked_monitor m env s avg)
             \<lparr>ping_packet_loss := (if loss = None then ping_packet_loss m else loss)\<rparr>"
    and "make_uptime_log mid (run_probe rt m env) env =
           (plain_log (new_log_id env) mid (now_logged env) s avg e)
             \<lparr>log_ping_packet_loss := loss,
              ping_min_time := (if loss = None then None else mn),
              ping_max_time := (if loss = None then None else mx),
              ping_avg_time := (if loss = None then None else avg_detailed)\<rparr>"
    and "po_error_msg (run_probe rt m env) = e"
  using assms
  by (auto simp: run_probe_def probe_ping_def apply_update_data_def checked_monitor_def
        make_uptime_log_def plain_log_def)

lemma manual_keyword:
  assumes "monitor_type m = KEYWORD"
    and "check_keyword rt (http_io env) (keyword_text m)
           (or_str (keyword_match_type m) ''contains'') (elapsed env)
           = (s, t, e, found, match_count)"
  shows "apply_update_data (run_probe rt m env) env m =
           (checked_monitor m env s t)\<lparr>keyword_found := Some found\<rparr>"
    and "make_uptime_log mid (run_probe rt m env) env =
           (plain_log (new_log_id env) mid (now_logged env) s t e)
             \<lparr>log_keyword_found := Some found, keyword_match_count := Some (int match_count)\<rparr>"
    and "po_error_msg (run_probe rt m env) = e"
  using assms
  by (auto simp: run_probe_def probe_keyword_def apply_update_data_def checked_monitor_def
        make_uptime_log_def plain_log_def)

lemma manual_api:
  assumes "monitor_type m = API"
    and "check_api_endpoint rt (http_io env) (or_int (expected_status_code m) 200)
           (expected_response_time m) (json_path m) (expected_json_value m) (elapsed env)
           = (s, t, e, code, valid, size_opt)"
  shows "apply_update_data (run_probe rt m env) env m =
           (checked_monitor m env s t)
             \<lparr>actual_status_code := Some code, json_validation_result := Some valid\<rparr>"
    and "make_uptime_log mid (run_probe rt m env) env =
           (plain_log (new_log_id env) mid (now_logged env) s t e)
             \<lparr>api_status_code := Some code, api_response_size := size_opt,
              json_validation_passed := Some valid\<rparr>"
    and "po_error_msg (run_probe rt m env) = e"
  using assms
  by (auto simp: run_probe_def probe_api_def apply_update_data_def checked_monitor_def
        make_uptime_log_def plain_log_def)

text \<open>
  C9: a manual check of an existing monitor updates the status, the response time,
  \<^verbatim>\<open>last_checked\<close> and the kind-specific fields of the monitor and inserts exactly one
  log for it, sends no email, and leaves the \<^verbatim>\<open>uptime_percentage\<close> of every monitor and
  the alert settings as they were, whatever status transition it causes. For each kind
  of monitor the answer, the monitor document written and the log inserted are the ones
  the result of the probe primitive of that kind determines: \<^verbatim>\<open>ssl_expires_at\<close> is set
  when the probe returned an expiry date, \<^verbatim>\<open>ping_packet_loss\<close> when it returned a packet
  loss, \<^verbatim>\<open>keyword_found\<close>, \<^verbatim>\<open>actual_status_code\<close> and \<^verbatim>\<open>json_validation_result\<close> always,
  and no other field of the monitor changes.
\<close>

theorem manual_check_frame:
  assumes "find_one (\<lambda>d. m_id d = mid) (monitors st) = Some m"
    and "po = run_probe rt m env"
    and "st' = fst (snd (manual_check_monitor rt st mid env))"
    and "m' = apply_update_data po env m"
  shows "fst (manual_check_monitor rt st mid env)
           = Inr (po_status po, po_response_time po, po_error_msg po) \<and>
         snd (snd (manual_check_monitor rt st mid env)) = [] \<and>
         find_one (\<lambda>d. m_id d = mid) (monitors st') = Some m' \<and>
         status m' = po_status po \<and> response_time m' = po_response_time po \<and>
         last_checked m' = Some (now_checked env) \<and>
         (monitor_type m = KEYWORD \<longrightarrow> keyword_found m' \<noteq> None) \<and>
         (monitor_type m = API \<longrightarrow>
            actual_status_code m' \<noteq> None \<and> json_validation_result m' \<noteq> None) \<and>
         uptime_logs st' = uptime_logs st @ [make_uptime_log mid po env] \<and>
         log_monitor_id (make_uptime_log mid po env) = mid \<and>
         log_status (make_uptime_log mid po env) = po_status po \<and>
         map uptime_percentage (monitors st') = map uptime_percentage (monitors st) \<and>
         uptime_percentage m' = uptime_percentage m \<and>
         alert_settings st' = alert_settings st \<and>
         ((monitor_type m = HTTP \<or> monitor_type m = HTTPS) \<and>
          check_url (http_io env) (elapsed env) = (s_http, t_http, e_http) \<longrightarrow>
            fst (manual_check_monitor rt st mid env) = Inr (s_http, t_http, e_http) \<and>
            m' = checked_monitor m env s_http t_http \<and>
            make_uptime_log mid po env
              = plain_log (new_log_id env) mid (now_logged env) s_http t_http e_http) \<and>
         (monitor_type m = SSL \<and>
          check_ssl_certificate (tls_io env) (now_probe env) (elapsed env)
            (or_int (ssl_expiry_threshold m) 30) = (s_ssl, t_ssl, e_ssl, expiry, days) \<longrightarrow>
            fst (manual_check_monitor rt st mid env) = Inr (s_ssl, t_ssl, e_ssl) \<and>
            m' = (checked_monitor m env s_ssl t_ssl)
                   \<lparr>ssl_expires_at := (if expiry = None then ssl_expires_at m else expiry)\<rparr> \<and>
            make_uptime_log mid po env
              = (plain_log (new_log_id env) mid (now_logged env) s_ssl t_ssl e_ssl)
                  \<lparr>log_ssl_expires_at := expiry,
                   ssl_days_until_expiry := (if expiry = None then None else days)\<rparr>) \<and>
         (monitor_type m = DNS \<and>
          check_dns_resolution (dns_io env) (expected_dns_result m) (elapsed env)
            = (s_dns, t_dns, e_dns, resolved) \<longrightarrow>
            fst (manual_check_monitor rt st mid env) = Inr (s_dns, t_dns, e_dns) \<and>
            m' = checked_monitor m env s_dns t_dns \<and>
            make_uptime_log mid po env
              = (plain_log (new_log_id env) mid (now_logged env) s_dns t_dns e_dns)
                  \<lparr>dns_resolution_time := t_dns, dns_result := resolved\<rparr>) \<and>
         (monitor_type m = PORT \<and>
          check_port_connectivity
            (case port_protocol m of None \<Rightarrow> ''tcp'' | Some pr \<Rightarrow> PortProtocol_value pr)
            (conn_io env) (elapsed env) = (s_port, t_port, e_port, is_open) \<longrightarrow>
            fst (manual_check_monitor rt st mid env) = Inr (s_port, t_port, e_port) \<and>
            m' = checked_monitor m env s_port t_port \<and>
            make_uptime_log mid po env
              = (plain_log (new_log_id env) mid (now_logged env) s_port t_port e_port)
                  \<lparr>port_open := Some is_open\<rparr>) \<and>
         (monitor_type m = PING \<and>
          check_ping (ping_io env) = (s_ping, avg, e_ping, loss, mn, mx, avg_detailed) \<longrightarrow>
            fst (manual_check_monitor rt st mid env) = Inr (s_ping, avg, e_ping) \<and>
            m' = (checked_monitor m env s_ping avg)
                   \<lparr>ping_packet_loss := (if loss = None then ping_packet_loss m else loss)\<rparr> \<and>
            make_uptime_log mid po env
              = (plain_log (new_log_id env) mid (now_logged env) s_ping avg e_ping)
                  \<lparr>log_ping_packet_loss := loss,
                   ping_min_time := (if loss = None then None else mn),
                   ping_max_time := (if loss = None then None else mx),
                   ping_avg_time := (if loss = None then None else avg_detailed)\<rparr>) \<and>
         (monitor_type m = KEYWORD \<and>
          check_keyword rt (http_io env) (keyword_text m)
            (or_str (keyword_match_type m) ''contains'') (elapsed env)
            = (s_kw, t_kw, e_kw, found, match_count) \<longrightarrow>
            fst (manual_check_monitor rt st mid env) = Inr (s_kw, t_kw, e_kw) \<and>
            m' = (checked_monitor m env s_kw t_kw)\<lparr>keyword_found := Some found\<rparr> \<and>
            make_uptime_log mid po env
              = (plain_log (new_log_id env) mid (now_logged env) s_kw t_kw e_kw)
                  \<lparr>log_keyword_found := Some found,
                   keyword_match_count := Some (int match_count)\<rparr>) \<and>
         (monitor_type m = API \<and>
          check_api_endpoint rt (http_io env) (or_int (expected_status_code m) 200)
            (expected_response_time m) (json_path m) (expected_json_value m) (elapsed env)
            = (s_api, t_api, e_api, code, valid, size_opt) \<longrightarrow>
            fst (manual_check_monitor rt st mid env) = Inr (s_api, t_api, e_api) \<and>
            m' = (checked_monitor m env s_api t_api)
                   \<lparr>actual_status_code := Some code, json_validation_result := Some valid\<rparr> \<and>
            make_uptime_log mid po env
              = (plain_log (new_log_id env) mid (now_logged env) s_api t_api e_api)
                  \<lparr>api_status_code := Some code, api_response_size := size_opt,
                   json_validation_passed := Some valid\<rparr>)"
proof -
  have r: "manual_check_monitor rt st mid env =
             (Inr (po_status po, po_response_time po, po_error_msg po),
              record_check mid po env st, [])"
    using assms(1,2) by (simp add: manual_check_monitor_def Let_def)
  have s: "st' = record_check mid po env st"
    using assms(3) r by simp
  have f: "find_one (\<lambda>d. m_id d = mid) (monitors st') = Some m'"
    unfolding s assms(4) assms(2)
    using assms(1)
    by (simp add: record_check_def find_one_update_one apply_update_data_frame)
  have c: "status m' = po_status po \<and> response_time m' = po_response_time po \<and>
           last_checked m' = Some (now_checked env)"
    unfolding assms(4) assms(2)
    by (simp add: apply_update_data_def run_probe_update_frame)
  have k: "(monitor_type m = KEYWORD \<longrightarrow> keyword_found m' \<noteq> None) \<and>
           (monitor_type m = API \<longrightarrow>
              actual_status_code m' \<noteq> None \<and> json_validation_result m' \<noteq> None)"
    unfolding assms(4) assms(2)
    by (simp add: apply_update_data_def run_probe_kind_fields)
  have l: "uptime_logs st' = uptime_logs st @ [make_uptime_log mid po env]"
    unfolding s by (simp add: record_check_def insert_one_def)
  have g: "log_monitor_id (make_uptime_log mid po env) = mid \<and>
           log_status (make_uptime_log mid po env) = po_status po"
    unfolding assms(2) by (simp add: make_uptime_log_def run_probe_log_frame)
  have u: "map uptime_percentage (monitors st') = map uptime_percentage (monitors st)"
    unfolding s assms(2)
    by (simp add: record_check_def update_one_map_frame apply_update_data_frame)
  have v: "uptime_percentage m' = uptime_percentage m"
    unfolding assms(4) assms(2) by (simp add: apply_update_data_frame)
  have a: "alert_settings st' = alert_settings st"
    unfolding s by (simp add: record_check_def)
  have answer: "fst (manual_check_monitor rt st mid env)
                  = Inr (status m', response_time m', po_error_msg po)"
    using r c by simp
  have k1: "(monitor_type m = HTTP \<or> monitor_type m = HTTPS) \<and>
          check_url (http_io env) (elapsed env) = (s_http, t_http, e_http) \<longrightarrow>
            fst (manual_check_monitor rt st mid env) = Inr (s_http, t_http, e_http) \<and>
            m' = checked_monitor m env s_http t_http \<and>
            make_uptime_log mid po env
              = plain_log (new_log_id env) mid (now_logged env) s_http t_http e_http"
  proof
    assume h: "(monitor_type m = HTTP \<or> monitor_type m = HTTPS) \<and>
          check_url (http_io env) (elapsed env) = (s_http, t_http, e_http)"
    note x = manual_http [OF conjunct1 [OF h] conjunct2 [OF h]]
    have y: "m' = checked_monitor m env s_http t_http"
      unfolding assms(4) assms(2) by (rule x(1))
    have z: "make_uptime_log mid po env
              = plain_log (new_log_id env) mid (now_logged env) s_http t_http e_http"
      unfolding assms(2) by (rule x(2))
    have w: "po_error_msg po = e_http" unfolding assms(2) by (rule x(3))
    have q: "status m' = s_http \<and> response_time m' = t_http"
      unfolding y by (simp add: checked_monitor_def)
    from answer q w y z
    show "fst (manual_check_monitor rt st mid env) = Inr (s_http, t_http, e_http) \<and>
            m' = checked_monitor m env s_http t_http \<and>
            make_uptime_log mid po env
              = plain_log (new_log_id env) mid (now_logged env) s_http t_http e_http"
      by simp
  qed
  have k2: "monitor_type m = SSL \<and>
          check_ssl_certificate (tls_io env) (now_probe env) (elapsed env)
            (or_int (ssl_expiry_threshold m) 30) = (s_ssl, t_ssl, e_ssl, expiry, days) \<longrightarrow>
            fst (manual_check_monitor rt st mid env) = Inr (s_ssl, t_ssl, e_ssl) \<and>
            m' = (checked_monitor m env s_ssl t_ssl)
                   \<lparr>ssl_expires_at := (if expiry = None then ssl_expires_at m else expiry)\<rparr> \<and>
            make_uptime_log mid po env
              = (plain_log (new_log_id env) mid (now_logged env) s_ssl t_ssl e_ssl)
                  \<lparr>log_ssl_expires_at := expiry,
                   ssl_days_until_expiry := (if expiry = None then None else days)\<rparr>"
  proof
    assume h: "monitor_type m = SSL \<and>
          check_ssl_certificate (tls_io env) (now_probe env) (elapsed env)
            (or_int (ssl_expiry_threshold m) 30) = (s_ssl, t_ssl, e_ssl, expiry, days)"
    note x = manual_ssl [OF conjunct1 [OF h] conjunct2 [OF h]]
    have y: "m' = (checked_monitor m env s_ssl t_ssl)
                   \<lparr>ssl_expires_at := (if expiry = None then ssl_expires_at m else expiry)\<rparr>"
      unfolding assms(4) assms(2) by (rule x(1))
    have z: "make_uptime_log mid po env
              = (plain_log (new_log_id env) mid (now_logged env) s_ssl t_ssl e_ssl)
                  \<lparr>log_ssl_expires_at := expiry,
                   ssl_days_until_expiry := (if expiry = None then None else days)\<rparr>"
      unfolding assms(2) by (rule x(2))
    have w: "po_error_msg po = e_ssl" unfolding assms(2) by (rule x(3))
    have q: "status m' = s_ssl \<and> response_time m' = t_ssl"
      unfolding y by (simp add: checked_monitor_def)
    from answer q w y z
    show "fst (manual_check_monitor rt st mid env) = Inr (s_ssl, t_ssl, e_ssl) \<and>
            m' = (checked_monitor m env s_ssl t_ssl)
                   \<lparr>ssl_expires_at := (if expiry = None then ssl_expires_at m else expiry)\<rparr> \<and>
            make_uptime_log mid po env
              = (plain_log (new_log_id env) mid (now_logged env) s_ssl t_ssl e_ssl)
                  \<lparr>log_ssl_expires_at := expiry,
                   ssl_days_until_expiry := (if expiry = None then None else days)\<rparr>"
      by simp
  qed
  have k3: "monitor_type m = DNS \<and>
          check_dns_resolution (dns_io env) (expected_dns_result m) (elapsed env)
            = (s_dns, t_dns, e_dns, resolved) \<longrightarrow>
            fst (manual_check_monitor rt st mid env) = Inr (s_dns, t_dns, e_dns) \<and>
            m' = checked_monitor m env s_dns t_dns \<and>
            make_uptime_log mid po env
              = (plain_log (new_log_id env) mid (now_logged env) s_dns t_dns e_dns)
                  \<lparr>dns_resolution_time := t_dns, dns_result := resolved\<rparr>"
  proof
    assume h: "monitor_type m = DNS \<and>
          check_dns_resolution (dns_io env) (expected_dns_result m) (elapsed env)
            = (s_dns, t_dns, e_dns, resolved)"
    note x = manual_dns [OF conjunct1 [OF h] conjunct2 [OF h]]
    have y: "m' = checked_monitor m env s_dns t_dns"
      unfolding assms(4) assms(2) by (rule x(1))
    have z: "make_uptime_log mid po env
              = (plain_log (new_log_id env) mid (now_logged env) s_dns t_dns e_dns)
                  \<lparr>dns_resolution_time := t_dns, dns_result := resolved\<rparr>"
      unfolding assms(2) by (rule x(2))
    have w: "po_error_msg po = e_dns" unfolding assms(2) by (rule x(3))
    have q: "status m' = s_dns \<and> response_time m' = t_dns"
      unfolding y by (simp add: checked_monitor_def)
    from answer q w y z
    show "fst (manual_check_monitor rt st mid env) = Inr (s_dns, t_dns, e_dns) \<and>
            m' = checked_monitor m env s_dns t_dns \<and>
            make_uptime_log mid po env
              = (plain_log (new_log_id env) mid (now_logged env) s_dns t_dns e_dns)
                  \<lparr>dns_resolution_time := t_dns, dns_result := resolved\<rparr>"
      by simp
  qed
  have k4: "monitor_type m = PORT \<and>
          check_port_connectivity
            (case port_protocol m of None \<Rightarrow> ''tcp'' | Some pr \<Rightarrow> PortProtocol_value pr)
            (conn_io env) (elapsed env) = (s_port, t_port, e_port, is_open) \<longrightarrow>
            fst (manual_check_monitor rt st mid env) = Inr (s_port, t_port, e_port) \<and>
            m' = checked_monitor m env s_port t_port \<and>
            make_uptime_log mid po env
              = (plain_log (new_log_id env) mid (now_logged env) s_port t_port e_port)
                  \<lparr>port_open := Some is_open\<rparr>"
  proof
    assume h: "monitor_type m = PORT \<and>
          check_port_connectivity
            (case port_protocol m of None \<Rightarrow> ''tcp'' | Some pr \<Rightarrow> PortProtocol_value pr)
            (conn_io env) (elapsed env) = (s_port, t_port, e_port, is_open)"
    note x = manual_port [OF conjunct1 [OF h] conjunct2 [OF h]]
    have y: "m' = checked_monitor m env s_port t_port"
      unfolding assms(4) assms(2) by (rule x(1))
    have z: "make_uptime_log mid po env
              = (plain_log (new_log_id env) mid (now_logged env) s_port t_port e_port)
                  \<lparr>port_open := Some is_open\<rparr>"
      unfolding assms(2) by (rule x(2))
    have w: "po_error_msg po = e_port" unfolding assms(2) by (rule x(3))
    have q: "status m' = s_port \<and> response_time m' = t_port"
      unfolding y by (simp add: checked_monitor_def)
    from answer q w y z
    show "fst (manual_check_monitor rt st mid env) = Inr (s_port, t_port, e_port) \<and>
            m' = checked_monitor m env s_port t_port \<and>
            make_uptime_log mid po env
              = (plain_log (new_log_id env) mid (now_logged env) s_port t_port e_port)
                  \<lparr>port_open := Some is_open\<rparr>"
      by simp
  qed
  have k5: "monitor_type m = PING \<and>
          check_ping (ping_io env) = (s_ping, avg, e_ping, loss, mn, mx, avg_detailed) \<longrightarrow>
            fst (manual_check_monitor rt st mid env) = Inr (s_ping, avg, e_ping) \<and>
            m' = (checked_monitor m env s_ping avg)
                   \<lparr>ping_packet_loss := (if loss = None then ping_packet_loss m else loss)\<rparr> \<and>
            make_uptime_log mid po env
              = (plain_log (new_log_id env) mid (now_logged env) s_ping avg e_ping)
                  \<lparr>log_ping_packet_loss := loss,
                   ping_min_time := (if loss = None then None else mn),
                   ping_max_time := (if loss = None then None else mx),
                   ping_avg_time := (if loss = None then None else avg_detailed)\<rparr>"
  proof
    assume h: "monitor_type m = PING \<and>
          check_ping (ping_io env) = (s_ping, avg, e_ping, loss, mn, mx, avg_detailed)"
    note x = manual_ping [OF conjunct1 [OF h] conjunct2 [OF h]]
    have y: "m' = (checked_monitor m env s_ping avg)
                   \<lparr>ping_packet_loss := (if loss = None then ping_packet_loss m else loss)\<rparr>"
      unfolding assms(4) assms(2) by (rule x(1))
    have z: "make_uptime_log mid po env
              = (plain_log (new_log_id env) mid (now_logged env) s_ping avg e_ping)
                  \<lparr>log_ping_packet_loss := loss,
                   ping_min_time := (if loss = None then None else mn),
                   ping_max_time := (if loss = None then None else mx),
                   ping_avg_time := (if loss = None then None else avg_detailed)\<rparr>"
      unfolding assms(2) by (rule x(2))
    have w: "po_error_msg po = e_ping" unfolding assms(2) by (rule x(3))
    have q: "status m' = s_ping \<and> response_time m' = avg"
      unfolding y by (simp add: checked_monitor_def)
    from answer q w y z
    show "fst (manual_check_monitor rt st mid env) = Inr (s_ping, avg, e_ping) \<and>
            m' = (checked_monitor m env s_ping avg)
                   \<lparr>ping_packet_loss := (if loss = None then ping_packet_loss m else loss)\<rparr> \<and>
            make_uptime_log mid po env
              = (plain_log (new_log_id env) mid (now_logged env) s_ping avg e_ping)
                  \<lparr>log_ping_packet_loss := loss,
                   ping_min_time := (if loss = None then None else mn),
                   ping_max_time := (if loss = None then None else mx),
                   ping_avg_time := (if loss = None then None else avg_detailed)\<rparr>"
      by simp
  qed
  have k6: "monitor_type m = KEYWORD \<and>
          check_keyword rt (http_io env) (keyword_text m)
            (or_str (keyword_match_type m) ''contains'') (elapsed env)
            = (s_kw, t_kw, e_kw, found, match_count) \<longrightarrow>
            fst (manual_check_monitor rt st mid env) = Inr (s_kw, t_kw, e_kw) \<and>
            m' = (checked_monitor m env s_kw t_kw)\<lparr>keyword_found := Some found\<rparr> \<and>
            make_uptime_log mid po env
              = (plain_log (new_log_id env) mid (now_logged env) s_kw t_kw e_kw)
                  \<lparr>log_keyword_found := Some found,
                   keyword_match_count := Some (int match_count)\<rparr>"
  proof
    assume h: "monitor_type m = KEYWORD \<and>
          check_keyword rt (http_io env) (keyword_text m)
            (or_str (keyword_match_type m) ''contains'') (elapsed env)
            = (s_kw, t_kw, e_kw, found, match_count)"
    note x = manual_keyword [OF conjunct1 [OF h] conjunct2 [OF h]]
    have y: "m' = (checked_monitor m env s_kw t_kw)\<lparr>keyword_found := Some found\<rparr>"
      unfolding assms(4) assms(2) by (rule x(1))
    have z: "make_uptime_log mid po env
              = (plain_log (new_log_id env) mid (now_logged env) s_kw t_kw e_kw)
                  \<lparr>log_keyword_found := Some found,
                   keyword_match_count := Some (int match_count)\<rparr>"
      unfolding assms(2) by (rule x(2))
    have w: "po_error_msg po = e_kw" unfolding assms(2) by (rule x(3))
    have q: "status m' = s_kw \<and> response_time m' = t_kw"
      unfolding y by (simp add: checked_monitor_def)
    from answer q w y z
    show "fst (manual_check_monitor rt st mid env) = Inr (s_kw, t_kw, e_kw) \<and>
            m' = (checked_monitor m env s_kw t_kw)\<lparr>keyword_found := Some found\<rparr> \<and>
            make_uptime_log mid po env
              = (plain_log (new_log_id env) mid (now_logged env) s_kw t_kw e_kw)
                  \<lparr>log_keyword_found := Some found,
                   keyword_match_count := Some (int match_count)\<rparr>"
      by simp
  qed
  have k7: "monitor_type m = API \<and>
          check_api_endpoint rt (http_io env) (or_int (expected_status_code m) 200)
            (expected_response_time m) (json_path m) (expected_json_value m) (elapsed env)
            = (s_api, t_api, e_api, code, valid, size_opt) \<longrightarrow>
            fst (manual_check_monitor rt st mid env) = Inr (s_api, t_api, e_api) \<and>
            m' = (checked_monitor m env s_api t_api)
                   \<lparr>actual_status_code := Some code, json_validation_result := Some valid\<rparr> \<and>
            make_uptime_log mid po env
              = (plain_log (new_log_id env) mid (now_logged env) s_api t_api e_api)
                  \<lparr>api_status_code := Some code, api_response_size := size_opt,
                   json_validation_passed := Some valid\<rparr>"
  proof
    assume h: "monitor_type m = API \<and>
          check_api_endpoint rt (http_io env) (or_int (expected_status_code m) 200)
            (expected_response_time m) (json_path m) (expected_json_value m) (elapsed env)
            = (s_api, t_api, e_api, code, valid, size_opt)"
    note x = manual_api [OF conjunct1 [OF h] conjunct2 [OF h]]
    have y: "m' = (checked_monitor m env s_api t_api)
                   \<lparr>actual_status_code := Some code, json_validation_result := Some valid\<rparr>"
      unfolding assms(4) assms(2) by (rule x(1))
    have z: "make_uptime_log mid po env
              = (plain_log (new_log_id env) mid (now_logged env) s_api t_api e_api)
                  \<lparr>api_status_code := Some code, api_response_size := size_opt,
                   json_validation_passed := Some valid\<rparr>"
      unfolding assms(2) by (rule x(2))
    have w: "po_error_msg po = e_api" unfolding assms(2) by (rule x(3))
    have q: "status m' = s_api \<and> response_time m' = t_api"
      unfolding y by (simp add: checked_monitor_def)
    from answer q w y z
    show "fst (manual_check_monitor rt st mid env) = Inr (s_api, t_api, e_api) \<and>
            m' = (checked_monitor m env s_api t_api)
                   \<lparr>actual_status_code := Some code, json_validation_result := Some valid\<rparr> \<and>
            make_uptime_log mid po env
              = (plain_log (new_log_id env) mid (now_logged env) s_api t_api e_api)
                  \<lparr>api_status_code := Some code, api_response_size := size_opt,
                   json_validation_passed := Some valid\<rparr>"
      by simp
  qed
  from r f c k l g u v a
  have frame: "fst (manual_check_monitor rt st mid env)
           = Inr (po_status po, po_response_time po, po_error_msg po) \<and>
         snd (snd (manual_check_monitor rt st mid env)) = [] \<and>
         find_one (\<lambda>d. m_id d = mid) (monitors st') = Some m' \<and>
         status m' = po_status po \<and> response_time m' = po_response_time po \<and>
         last_checked m' = Some (now_checked env) \<and>
         (monitor_type m = KEYWORD \<longrightarrow> keyword_found m' \<noteq> None) \<and>
         (monitor_type m = API \<longrightarrow>
            actual_status_code m' \<noteq> None \<and> json_validation_result m' \<noteq> None) \<and>
         uptime_logs st' = uptime_logs st @ [make_uptime_log mid po env] \<and>
         log_monitor_id (make_uptime_log mid po env) = mid \<and>
         log_status (make_uptime_log mid po env) = po_status po \<and>
         map uptime_percentage (monitors st') = map uptime_percentage (monitors st) \<and>
         uptime_percentage m' = uptime_percentage m \<and>
         alert_settings st' = alert_settings st"
    by simp
  from frame k1 k2 k3 k4 k5 k6 k7 show ?thesis by blast
qed

lemma status_home: "status home_monitor = UNKNOWN"
  by (simp add: home_monitor_def new_monitor_def)

lemma type_home: "monitor_type home_monitor = HTTPS"
  by (simp add: home_monitor_def new_monitor_def default_create_def)

lemma probe_home:
  "po_status (run_probe sample_runtime home_monitor home_env) = DOWN"
  "po_response_time (run_probe sample_runtime home_monitor home_env) = Some (3/25)"
  "po_error_msg (run_probe sample_runtime home_monitor home_env) = Some ''HTTP 500''"
  by (simp_all add: run_probe_def type_home probe_http_def home_env_def str_int_500)

lemma cert_fields:
  "m_id cert_monitor = ''m2''" "status cert_monitor = UP" "monitor_type cert_monitor = SSL"
  "last_checked cert_monitor = Some 0" "check_interval cert_monitor = 300"
  "ssl_expiry_threshold cert_monitor = Some 30" "name cert_monitor = ''Cert''"
  "url cert_monitor = None" "ssl_domain cert_monitor = Some ''example.com''"
  by (simp_all add: cert_monitor_def new_monitor_def default_create_def)

lemma cert_check:
  "check_ssl_certificate (tls_io cert_env) (now_probe cert_env) (elapsed cert_env)
     (or_int (ssl_expiry_threshold cert_monitor) 30)
   = (WARNING, Some (1/5), Some ''Certificate expires in 10 days'', Some 865000000005, Some 10)"
  by (simp add: cert_env_def cert_fields timedelta_days_def Let_def str_int_10)

theorem manual_check_frame_witness:
  "fst (manual_check_monitor sample_runtime home_store ''m1'' home_env)
     = Inr (DOWN, Some (3/25), Some ''HTTP 500'') \<and>
   snd (snd (manual_check_monitor sample_runtime home_store ''m1'' home_env)) = [] \<and>
   map uptime_percentage
     (monitors (fst (snd (manual_check_monitor sample_runtime home_store ''m1'' home_env)))) = [0] \<and>
   length (uptime_logs (fst (snd (manual_check_monitor sample_runtime home_store ''m1'' home_env))))
     = 2 \<and>
   fst (manual_check_monitor sample_runtime cert_store ''m2'' cert_env)
     = Inr (WARNING, Some (1/5), Some ''Certificate expires in 10 days'') \<and>
   find_one (\<lambda>d. m_id d = ''m2'')
     (monitors (fst (snd (manual_check_monitor sample_runtime cert_store ''m2'' cert_env))))
     = Some (cert_monitor\<lparr>last_checked := Some 1000000000, status := WARNING,
               response_time := Some (1/5), ssl_expires_at := Some 865000000005\<rparr>) \<and>
   uptime_logs (fst (snd (manual_check_monitor sample_runtime cert_store ''m2'' cert_env)))
     = [(plain_log ''l9'' ''m2'' 1000000001 WARNING (Some (1/5))
           (Some ''Certificate expires in 10 days''))
          \<lparr>log_ssl_expires_at := Some 865000000005, ssl_days_until_expiry := Some 10\<rparr>]"
proof -
  have m: "find_one (\<lambda>d. m_id d = ''m1'') (monitors home_store) = Some home_monitor"
    by (simp add: find_one_def home_store_def m_id_home)
  have u: "uptime_percentage home_monitor = 0"
    by (simp add: home_monitor_def new_monitor_def)
  have h: "fst (manual_check_monitor sample_runtime home_store ''m1'' home_env)
     = Inr (DOWN, Some (3/25), Some ''HTTP 500'') \<and>
   snd (snd (manual_check_monitor sample_runtime home_store ''m1'' home_env)) = [] \<and>
   map uptime_percentage
     (monitors (fst (snd (manual_check_monitor sample_runtime home_store ''m1'' home_env)))) = [0] \<and>
   length (uptime_logs (fst (snd (manual_check_monitor sample_runtime home_store ''m1'' home_env))))
     = 2"
    using manual_check_frame [OF m refl refl refl, of sample_runtime home_env] u probe_home
    by (simp add: home_store_def)
  have c: "find_one (\<lambda>d. m_id d = ''m2'') (monitors cert_store) = Some cert_monitor"
    by (simp add: find_one_def cert_store_def cert_fields)
  have t: "monitor_type cert_monitor = SSL \<and>
           check_ssl_certificate (tls_io cert_env) (now_probe cert_env) (elapsed cert_env)
             (or_int (ssl_expiry_threshold cert_monitor) 30)
           = (WARNING, Some (1/5), Some ''Certificate expires in 10 days'',
              Some 865000000005, Some 10)"
    using cert_check by (simp add: cert_fields)
  have e: "now_checked cert_env = 1000000000" "new_log_id cert_env = ''l9''"
    "now_logged cert_env = 1000000001"
    by (simp_all add: cert_env_def)
  note T = manual_check_frame [OF c refl refl refl, of sample_runtime cert_env,
            where s_ssl = WARNING and t_ssl = "Some (1/5)"
              and e_ssl = "Some ''Certificate expires in 10 days''"
              and expiry = "Some 865000000005" and days = "Some 10"
              and s_http = UP and t_http = None and e_http = None
              and s_dns = UP and t_dns = None and e_dns = None and resolved = None
              and s_port = UP and t_port = None and e_port = None and is_open = True
              and s_ping = UP and avg = None and e_ping = None and loss = None
              and mn = None and mx = None and avg_detailed = None
              and s_kw = UP and t_kw = None and e_kw = None and found = True
              and match_count = 0
              and s_api = UP and t_api = None and e_api = None and code = 0
              and valid = True and size_opt = None]
  from T t
  have g1: "fst (manual_check_monitor sample_runtime cert_store ''m2'' cert_env)
              = Inr (WARNING, Some (1/5), Some ''Certificate expires in 10 days'')"
    by blast
  from T t
  have g2: "apply_update_data (run_probe sample_runtime cert_monitor cert_env) cert_env cert_monitor
              = (checked_monitor cert_monitor cert_env WARNING (Some (1/5)))
                  \<lparr>ssl_expires_at := (if Some 865000000005 = (None :: datetime option)
                                      then ssl_expires_at cert_monitor
                                      else Some 865000000005)\<rparr>"
    by blast
  from T t
  have g3: "make_uptime_log ''m2'' (run_probe sample_runtime cert_monitor cert_env) cert_env
              = (plain_log (new_log_id cert_env) ''m2'' (now_logged cert_env) WARNING (Some (1/5))
                   (Some ''Certificate expires in 10 days''))
                  \<lparr>log_ssl_expires_at := Some 865000000005,
                   ssl_days_until_expiry := (if Some 865000000005 = (None :: datetime option)
                                             then None else Some 10)\<rparr>"
    by blast
  from T
  have g4: "find_one (\<lambda>d. m_id d = ''m2'')
              (monitors (fst (snd (manual_check_monitor sample_runtime cert_store ''m2'' cert_env))))
            = Some (apply_update_data (run_probe sample_runtime cert_monitor cert_env) cert_env
                      cert_monitor)"
    by blast
  from T
  have g5: "uptime_logs (fst (snd (manual_check_monitor sample_runtime cert_store ''m2'' cert_env)))
            = uptime_logs cert_store
              @ [make_uptime_log ''m2'' (run_probe sample_runtime cert_monitor cert_env) cert_env]"
    by blast
  have g: "fst (manual_check_monitor sample_runtime cert_store ''m2'' cert_env)
     = Inr (WARNING, Some (1/5), Some ''Certificate expires in 10 days'') \<and>
   find_one (\<lambda>d. m_id d = ''m2'')
     (monitors (fst (snd (manual_check_monitor sample_runtime cert_store ''m2'' cert_env))))
     = Some (cert_monitor\<lparr>last_checked := Some 1000000000, status := WARNING,
               response_time := Some (1/5), ssl_expires_at := Some 865000000005\<rparr>) \<and>
   uptime_logs (fst (snd (manual_check_monitor sample_runtime cert_store ''m2'' cert_env)))
     = [(plain_log ''l9'' ''m2'' 1000000001 WARNING (Some (1/5))
           (Some ''Certificate expires in 10 days''))
          \<lparr>log_ssl_expires_at := Some 865000000005, ssl_days_until_expiry := Some 10\<rparr>]"
    unfolding g1 g4 g5 g2 g3
    by (simp add: e checked_monitor_def cert_store_def)
  from h g show ?thesis by simp
qed

subsection \<open>Alerts of the background cycle\<close>

lemma update_uptime_alerts:
  "alert_settings (update_uptime_percentage st mid now) = alert_settings st"
  by (simp add: update_uptime_percentage_def Let_def)

lemma alert_emails_template:
  assumes "e \<in> set (alert_emails st m previous_status st_new)"
  shows "previous_status \<noteq> UNKNOWN \<and> previous_status \<noteq> st_new \<and>
         email_template e = (if st_new = DOWN then DOWN_ALERT else RECOVERY)"
  using assms by (auto simp: alert_emails_def send_alert_email_def split: if_splits)

lemma probe_cert: "po_status (run_probe sample_runtime cert_monitor cert_env) = WARNING"
  by (simp add: run_probe_def cert_fields probe_ssl_def cert_env_def timedelta_days_def Let_def)

text \<open>
  C2 fails on the code: a monitor that goes from UP to WARNING, with \<^verbatim>\<open>alert_on_down\<close>
  set and \<^verbatim>\<open>alert_on_up\<close> cleared, makes the background cycle send one email, and that
  email is the RECOVERY template, not the DOWN one.
\<close>

theorem warning_alert_uses_recovery_template:
  "po_status (run_probe sample_runtime cert_monitor cert_env) = WARNING \<and>
   snd (check_cycle_monitor sample_runtime 1000000000 cert_env cert_monitor (cert_store, [])) =
     [\<lparr>email_to = ''ops@example.com'', email_monitor_name = ''Cert'',
       email_monitor_url = ''example.com'', email_template = RECOVERY\<rparr>]"
proof -
  have d: "is_due cert_monitor 1000000000"
    by (simp add: is_due_def cert_fields)
  have a: "alert_settings (update_uptime_percentage
             (record_check ''m2'' (run_probe sample_runtime cert_monitor cert_env) cert_env
                cert_store) ''m2'' (now_aggregate cert_env)) = [cert_alert]"
    by (simp add: update_uptime_alerts record_check_def cert_store_def)
  have e: "alert_emails (update_uptime_percentage
             (record_check ''m2'' (run_probe sample_runtime cert_monitor cert_env) cert_env
                cert_store) ''m2'' (now_aggregate cert_env)) cert_monitor UP WARNING =
           [\<lparr>email_to = ''ops@example.com'', email_monitor_name = ''Cert'',
             email_monitor_url = ''example.com'', email_template = RECOVERY\<rparr>]"
    unfolding alert_emails_def a
    by (simp add: find_to_list_def cert_fields cert_alert_def should_alert_def
          send_alert_email_def monitor_url_def)
  show ?thesis
    using d e probe_cert
    by (simp add: check_cycle_monitor_def Let_def cert_fields)
qed

end
